theory Spec2Isabelle
  imports Complex_Main
begin

section \<open>Numbers, arrays and the store\<close>

text \<open>
  The math kernel works on JavaScript numbers held in fixed-size arrays
  (\<^verbatim>\<open>vec2\<close>, \<^verbatim>\<open>vec3\<close>, \<^verbatim>\<open>quat\<close>, \<^verbatim>\<open>basis\<close>, \<^verbatim>\<open>mat3\<close>, \<^verbatim>\<open>mat4\<close>, \<^verbatim>\<open>hsv\<close>).
  Numbers are modelled as reals: arithmetic is the exact one, \<^verbatim>\<open>Math.sqrt\<close>,
  \<^verbatim>\<open>Math.abs\<close>, \<^verbatim>\<open>Math.sin\<close>, \<^verbatim>\<open>Math.cos\<close> and \<^verbatim>\<open>Math.acos\<close> are
  \<^const>\<open>sqrt\<close>, \<^const>\<open>abs\<close>, \<^const>\<open>sin\<close>, \<^const>\<open>cos\<close> and \<^const>\<open>arccos\<close>. Rounding is
  not modelled. The counterexamples and failing inputs below use small numbers on
  which IEEE doubles compute the same arrays.

  Arrays are objects: two parameters may be the same array, and most operations
  write their result into a caller-supplied \<^verbatim>\<open>out\<close>. The store maps references to
  arrays (\<open>cells\<close>); \<open>next_ref\<close> is the first reference not yet allocated, so an
  array literal of the source is an allocation.
\<close>

type_synonym ref = nat

datatype heap = Heap (cells: "ref \<Rightarrow> real list") (next_ref: ref)

text \<open>An array literal \<^verbatim>\<open>[x, y, ...]\<close>.\<close>

definition alloc :: "real list \<Rightarrow> heap \<Rightarrow> ref \<times> heap" where
  "alloc xs h = (next_ref h, Heap ((cells h)(next_ref h := xs)) (Suc (next_ref h)))"

text \<open>The read \<^verbatim>\<open>p[i]\<close>.\<close>

definition get :: "heap \<Rightarrow> ref \<Rightarrow> nat \<Rightarrow> real" where
  "get h p i = cells h p ! i"

text \<open>
  The write \<^verbatim>\<open>p[i] = v\<close>. The tuple types of the source fix every array's length and
  every index is a constant inside it, so the write never extends the array.
\<close>

definition put :: "ref \<Rightarrow> nat \<Rightarrow> real \<Rightarrow> heap \<Rightarrow> heap" where
  "put p i v h = Heap ((cells h)(p := (cells h p)[i := v])) (next_ref h)"

text \<open>The array a call returns: the returned reference, read in the returned store.\<close>

definition result :: "ref \<times> heap \<Rightarrow> real list" where
  "result r = cells (snd r) (fst r)"

text \<open>The store holding the given arrays at references \<open>0, 1, ...\<close>, in order.\<close>

definition heap_of :: "real list list \<Rightarrow> heap" where
  "heap_of xss = Heap (\<lambda>p. if p < length xss then xss ! p else []) (length xss)"

text \<open>\<^verbatim>\<open>export const EPSILON = 0.000001\<close> (utils.ts).\<close>

definition EPSILON :: real where
  "EPSILON = 1 / 1000000"

section \<open>vec2.ts\<close>



section \<open>vec3.ts\<close>

definition vec3Normalize :: "ref \<Rightarrow> ref \<Rightarrow> heap \<Rightarrow> ref \<times> heap" where
  "vec3Normalize out v h =
     (let len = sqrt (get h v 0 * get h v 0 + get h v 1 * get h v 1 + get h v 2 * get h v 2) in
      if len = 0 then
        (let h = put out 0 0 h;
             h = put out 1 0 h;
             h = put out 2 0 h
         in (out, h))
      else
        (let h = put out 0 (get h v 0 / len) h;
             h = put out 1 (get h v 1 / len) h;
             h = put out 2 (get h v 2 / len) h
         in (out, h)))"

definition vec3Cross :: "ref \<Rightarrow> ref \<Rightarrow> ref \<Rightarrow> heap \<Rightarrow> ref \<times> heap" where
  "vec3Cross out a b h =
     (let h = put out 0 (get h a 1 * get h b 2 - get h a 2 * get h b 1) h;
          h = put out 1 (get h a 2 * get h b 0 - get h a 0 * get h b 2) h;
          h = put out 2 (get h a 0 * get h b 1 - get h a 1 * get h b 0) h
      in (out, h))"

definition vec3Dot :: "ref \<Rightarrow> ref \<Rightarrow> heap \<Rightarrow> real" where
  "vec3Dot a b h = get h a 0 * get h b 0 + get h a 1 * get h b 1 + get h a 2 * get h b 2"


definition vec3Add :: "ref \<Rightarrow> ref \<Rightarrow> ref \<Rightarrow> heap \<Rightarrow> ref \<times> heap" where
  "vec3Add out a b h =
     (let h = put out 0 (get h a 0 + get h b 0) h;
          h = put out 1 (get h a 1 + get h b 1) h;
          h = put out 2 (get h a 2 + get h b 2) h
      in (out, h))"

definition vec3Sub :: "ref \<Rightarrow> ref \<Rightarrow> ref \<Rightarrow> heap \<Rightarrow> ref \<times> heap" where
  "vec3Sub out a b h =
     (let h = put out 0 (get h a 0 - get h b 0) h;
          h = put out 1 (get h a 1 - get h b 1) h;
          h = put out 2 (get h a 2 - get h b 2) h
      in (out, h))"

definition vec3Mul :: "ref \<Rightarrow> ref \<Rightarrow> real \<Rightarrow> heap \<Rightarrow> ref \<times> heap" where
  "vec3Mul out v scalar h =
     (let h = put out 0 (get h v 0 * scalar) h;
          h = put out 1 (get h v 1 * scalar) h;
          h = put out 2 (get h v 2 * scalar) h
      in (out, h))"

text \<open>
  \<^verbatim>\<open>vec3Lerp\<close> allocates \<^verbatim>\<open>temp = [0, 0, 0]\<close>, then runs
  \<^verbatim>\<open>vec3Sub(temp, b, a); vec3Mul(temp, temp, t); vec3Add(out, a, temp)\<close>.
\<close>

definition vec3Lerp :: "ref \<Rightarrow> ref \<Rightarrow> ref \<Rightarrow> real \<Rightarrow> heap \<Rightarrow> ref \<times> heap" where
  "vec3Lerp out a b t h =
     (let (temp, h) = alloc [0, 0, 0] h;
          (_, h) = vec3Sub temp b a h;
          (_, h) = vec3Mul temp temp t h;
          (_, h) = vec3Add out a temp h
      in (out, h))"

section \<open>quat.ts\<close>

definition quatDot :: "ref \<Rightarrow> ref \<Rightarrow> heap \<Rightarrow> real" where
  "quatDot a b h =
     get h a 0 * get h b 0 + get h a 1 * get h b 1 + get h a 2 * get h b 2 + get h a 3 * get h b 3"




text \<open>
  \<^verbatim>\<open>quatLerp\<close> writes the four interpolated components into \<^verbatim>\<open>out\<close>, reads them
  back for the length, and divides only when \<^verbatim>\<open>len > EPSILON\<close>.
\<close>

definition quatLerp :: "ref \<Rightarrow> ref \<Rightarrow> ref \<Rightarrow> real \<Rightarrow> heap \<Rightarrow> ref \<times> heap" where
  "quatLerp out a b t h =
     (let h = put out 0 (get h a 0 + t * (get h b 0 - get h a 0)) h;
          h = put out 1 (get h a 1 + t * (get h b 1 - get h a 1)) h;
          h = put out 2 (get h a 2 + t * (get h b 2 - get h a 2)) h;
          h = put out 3 (get h a 3 + t * (get h b 3 - get h a 3)) h;
          len = sqrt (get h out 0 * get h out 0 + get h out 1 * get h out 1 +
                      get h out 2 * get h out 2 + get h out 3 * get h out 3);
          h = (if len > EPSILON then
                 (let h = put out 0 (get h out 0 / len) h;
                      h = put out 1 (get h out 1 / len) h;
                      h = put out 2 (get h out 2 / len) h;
                      h = put out 3 (get h out 3 / len) h
                  in h)
               else h)
      in (out, h))"

text \<open>
  \<^verbatim>\<open>quatSlerp\<close> first stores \<open>b\<close> or \<open>-b\<close> in \<^verbatim>\<open>out\<close>, and only afterwards reads
  \<^verbatim>\<open>a\<close> (in both the linear and the spherical branch).
\<close>

definition quatSlerp :: "ref \<Rightarrow> ref \<Rightarrow> ref \<Rightarrow> real \<Rightarrow> heap \<Rightarrow> ref \<times> heap" where
  "quatSlerp out a b t h =
     (let dot = quatDot a b h;
          (dot, h) =
            (if dot < 0 then
               (let h = put out 0 (- get h b 0) h;
                    h = put out 1 (- get h b 1) h;
                    h = put out 2 (- get h b 2) h;
                    h = put out 3 (- get h b 3) h
                in (- dot, h))
             else
               (let h = put out 0 (get h b 0) h;
                    h = put out 1 (get h b 1) h;
                    h = put out 2 (get h b 2) h;
                    h = put out 3 (get h b 3) h
                in (dot, h)))
      in
      if dot > 9995 / 10000 then
        (let h = put out 0 (get h a 0 + t * (get h out 0 - get h a 0)) h;
             h = put out 1 (get h a 1 + t * (get h out 1 - get h a 1)) h;
             h = put out 2 (get h a 2 + t * (get h out 2 - get h a 2)) h;
             h = put out 3 (get h a 3 + t * (get h out 3 - get h a 3)) h;
             len = sqrt (get h out 0 * get h out 0 + get h out 1 * get h out 1 +
                         get h out 2 * get h out 2 + get h out 3 * get h out 3);
             h = (if len > EPSILON then
                    (let h = put out 0 (get h out 0 / len) h;
                         h = put out 1 (get h out 1 / len) h;
                         h = put out 2 (get h out 2 / len) h;
                         h = put out 3 (get h out 3 / len) h
                     in h)
                  else h)
         in (out, h))
      else
        (let theta0 = arccos \<bar>dot\<bar>;
             sinTheta0 = sin theta0;
             theta = theta0 * t;
             sinTheta = sin theta;
             s0 = cos theta - dot * sinTheta / sinTheta0;
             s1 = sinTheta / sinTheta0;
             h = put out 0 (s0 * get h a 0 + s1 * get h out 0) h;
             h = put out 1 (s0 * get h a 1 + s1 * get h out 1) h;
             h = put out 2 (s0 * get h a 2 + s1 * get h out 2) h;
             h = put out 3 (s0 * get h a 3 + s1 * get h out 3) h
         in (out, h)))"

section \<open>basis.ts\<close>

text \<open>\<^verbatim>\<open>basisIdentity(out)\<close>, called with an explicit \<^verbatim>\<open>out\<close>.\<close>

definition basisIdentity :: "ref \<Rightarrow> heap \<Rightarrow> ref \<times> heap" where
  "basisIdentity out h =
     (let h = put out 0 1 h; h = put out 1 0 h; h = put out 2 0 h;
          h = put out 3 0 h; h = put out 4 1 h; h = put out 5 0 h;
          h = put out 6 0 h; h = put out 7 0 h; h = put out 8 1 h
      in (out, h))"

definition basisFromQuat :: "ref \<Rightarrow> heap \<Rightarrow> ref \<times> heap" where
  "basisFromQuat q h =
     (let x = get h q 0; y = get h q 1; z = get h q 2; w = get h q 3;
          x2 = x + x; y2 = y + y; z2 = z + z;
          xx = x * x2; xy = x * y2; xz = x * z2;
          yy = y * y2; yz = y * z2; zz = z * z2;
          wx = w * x2; wy = w * y2; wz = w * z2
      in alloc [1 - (yy + zz), xy + wz, xz - wy,
                xy - wz, 1 - (xx + zz), yz + wx,
                xz + wy, yz - wx, 1 - (xx + yy)] h)"

definition basisFromAxisAngle :: "ref \<Rightarrow> real \<Rightarrow> heap \<Rightarrow> ref \<times> heap" where
  "basisFromAxisAngle axis angle h =
     (let (tmp, h) = alloc [0, 0, 0] h;
          (normalizedAxis, h) = vec3Normalize tmp axis h;
          x = get h normalizedAxis 0;
          y = get h normalizedAxis 1;
          z = get h normalizedAxis 2;
          c = cos angle;
          s = sin angle;
          t = 1 - c
      in alloc [x * x * t + c, y * x * t + z * s, z * x * t - y * s,
                x * y * t - z * s, y * y * t + c, z * y * t + x * s,
                x * z * t + y * s, y * z * t - x * s, z * z * t + c] h)"

definition basisMul :: "ref \<Rightarrow> ref \<Rightarrow> ref \<Rightarrow> heap \<Rightarrow> ref \<times> heap" where
  "basisMul out a b h =
     (let a00 = get h a 0; a01 = get h a 1; a02 = get h a 2;
          a10 = get h a 3; a11 = get h a 4; a12 = get h a 5;
          a20 = get h a 6; a21 = get h a 7; a22 = get h a 8;
          b00 = get h b 0; b01 = get h b 1; b02 = get h b 2;
          b10 = get h b 3; b11 = get h b 4; b12 = get h b 5;
          b20 = get h b 6; b21 = get h b 7; b22 = get h b 8;
          h = put out 0 (a00 * b00 + a01 * b10 + a02 * b20) h;
          h = put out 1 (a00 * b01 + a01 * b11 + a02 * b21) h;
          h = put out 2 (a00 * b02 + a01 * b12 + a02 * b22) h;
          h = put out 3 (a10 * b00 + a11 * b10 + a12 * b20) h;
          h = put out 4 (a10 * b01 + a11 * b11 + a12 * b21) h;
          h = put out 5 (a10 * b02 + a11 * b12 + a12 * b22) h;
          h = put out 6 (a20 * b00 + a21 * b10 + a22 * b20) h;
          h = put out 7 (a20 * b01 + a21 * b11 + a22 * b21) h;
          h = put out 8 (a20 * b02 + a21 * b12 + a22 * b22) h
      in (out, h))"

text \<open>\<^verbatim>\<open>basisTranspose\<close> tests \<^verbatim>\<open>out === b\<close>, reference equality.\<close>

definition basisTranspose :: "ref \<Rightarrow> ref \<Rightarrow> heap \<Rightarrow> ref \<times> heap" where
  "basisTranspose out b h =
     (if out = b then
        (let b01 = get h b 1; b02 = get h b 2; b12 = get h b 5;
             h = put out 1 (get h b 3) h;
             h = put out 2 (get h b 6) h;
             h = put out 3 b01 h;
             h = put out 5 (get h b 7) h;
             h = put out 6 b02 h;
             h = put out 7 b12 h
         in (out, h))
      else
        (let h = put out 0 (get h b 0) h;
             h = put out 1 (get h b 3) h;
             h = put out 2 (get h b 6) h;
             h = put out 3 (get h b 1) h;
             h = put out 4 (get h b 4) h;
             h = put out 5 (get h b 7) h;
             h = put out 6 (get h b 2) h;
             h = put out 7 (get h b 5) h;
             h = put out 8 (get h b 8) h
         in (out, h)))"

definition basisDeterminant :: "ref \<Rightarrow> heap \<Rightarrow> real" where
  "basisDeterminant b h =
     get h b 0 * (get h b 4 * get h b 8 - get h b 5 * get h b 7) -
     get h b 1 * (get h b 3 * get h b 8 - get h b 5 * get h b 6) +
     get h b 2 * (get h b 3 * get h b 7 - get h b 4 * get h b 6)"

definition basisInverse :: "ref \<Rightarrow> ref \<Rightarrow> heap \<Rightarrow> ref \<times> heap" where
  "basisInverse out b h =
     (let det = basisDeterminant b h in
      if \<bar>det\<bar> < EPSILON then basisIdentity out h
      else
        (let invDet = 1 / det;
             h = put out 0 ((get h b 4 * get h b 8 - get h b 5 * get h b 7) * invDet) h;
             h = put out 1 ((get h b 2 * get h b 7 - get h b 1 * get h b 8) * invDet) h;
             h = put out 2 ((get h b 1 * get h b 5 - get h b 2 * get h b 4) * invDet) h;
             h = put out 3 ((get h b 5 * get h b 6 - get h b 3 * get h b 8) * invDet) h;
             h = put out 4 ((get h b 0 * get h b 8 - get h b 2 * get h b 6) * invDet) h;
             h = put out 5 ((get h b 2 * get h b 3 - get h b 0 * get h b 5) * invDet) h;
             h = put out 6 ((get h b 3 * get h b 7 - get h b 4 * get h b 6) * invDet) h;
             h = put out 7 ((get h b 1 * get h b 6 - get h b 0 * get h b 7) * invDet) h;
             h = put out 8 ((get h b 0 * get h b 4 - get h b 1 * get h b 3) * invDet) h
         in (out, h)))"

definition basisToQuat :: "ref \<Rightarrow> heap \<Rightarrow> ref \<times> heap" where
  "basisToQuat b h =
     (let trace = get h b 0 + get h b 4 + get h b 8 in
      if trace > 0 then
        (let s = sqrt (trace + 1) * 2 in
         alloc [(get h b 7 - get h b 5) / s,
                (get h b 2 - get h b 6) / s,
                (get h b 3 - get h b 1) / s,
                (25 / 100) * s] h)
      else if get h b 0 > get h b 4 \<and> get h b 0 > get h b 8 then
        (let s = sqrt (1 + get h b 0 - get h b 4 - get h b 8) * 2 in
         alloc [(25 / 100) * s,
                (get h b 1 + get h b 3) / s,
                (get h b 2 + get h b 6) / s,
                (get h b 7 - get h b 5) / s] h)
      else if get h b 4 > get h b 8 then
        (let s = sqrt (1 + get h b 4 - get h b 0 - get h b 8) * 2 in
         alloc [(get h b 1 + get h b 3) / s,
                (25 / 100) * s,
                (get h b 5 + get h b 7) / s,
                (get h b 2 - get h b 6) / s] h)
      else
        (let s = sqrt (1 + get h b 8 - get h b 0 - get h b 4) * 2 in
         alloc [(get h b 2 + get h b 6) / s,
                (get h b 5 + get h b 7) / s,
                (25 / 100) * s,
                (get h b 3 - get h b 1) / s] h))"

text \<open>
  \<^verbatim>\<open>basisOrthonormalize\<close> passes array literals built from the components of
  \<^verbatim>\<open>out\<close> as the output arguments of \<^verbatim>\<open>vec3Normalize\<close> and \<^verbatim>\<open>vec3Cross\<close>: each
  literal is a new array, allocated left to right, and the callee writes into it.
\<close>

definition basisOrthonormalize :: "ref \<Rightarrow> ref \<Rightarrow> heap \<Rightarrow> ref \<times> heap" where
  "basisOrthonormalize out b h =
     (let (t1, h) = alloc [get h out 0, get h out 1, get h out 2] h;
          (t2, h) = alloc [get h b 0, get h b 1, get h b 2] h;
          (_, h) = vec3Normalize t1 t2 h;
          (t3, h) = alloc [get h b 3, get h b 4, get h b 5] h;
          (t4, h) = alloc [get h out 0, get h out 1, get h out 2] h;
          yProj = vec3Dot t3 t4 h;
          (yAxis, h) = alloc [get h b 3 - yProj * get h out 0,
                              get h b 4 - yProj * get h out 1,
                              get h b 5 - yProj * get h out 2] h;
          (t5, h) = alloc [get h out 3, get h out 4, get h out 5] h;
          (_, h) = vec3Normalize t5 yAxis h;
          (t6, h) = alloc [get h out 6, get h out 7, get h out 8] h;
          (t7, h) = alloc [get h out 0, get h out 1, get h out 2] h;
          (t8, h) = alloc [get h out 3, get h out 4, get h out 5] h;
          (_, h) = vec3Cross t6 t7 t8 h
      in (out, h))"

definition basisLerp :: "ref \<Rightarrow> ref \<Rightarrow> ref \<Rightarrow> real \<Rightarrow> heap \<Rightarrow> ref \<times> heap" where
  "basisLerp out a b t h =
     (let (qa, h) = basisToQuat a h;
          (qb, h) = basisToQuat b h;
          (qOut, h) = alloc [get h qa 0 + t * (get h qb 0 - get h qa 0),
                             get h qa 1 + t * (get h qb 1 - get h qa 1),
                             get h qa 2 + t * (get h qb 2 - get h qa 2),
                             get h qa 3 + t * (get h qb 3 - get h qa 3)] h;
          len = sqrt (get h qOut 0 * get h qOut 0 + get h qOut 1 * get h qOut 1 +
                      get h qOut 2 * get h qOut 2 + get h qOut 3 * get h qOut 3);
          h = (if len > EPSILON then
                 (let h = put qOut 0 (get h qOut 0 / len) h;
                      h = put qOut 1 (get h qOut 1 / len) h;
                      h = put qOut 2 (get h qOut 2 / len) h;
                      h = put qOut 3 (get h qOut 3 / len) h
                  in h)
               else h)
      in basisFromQuat qOut h)"

definition basisSlerp :: "ref \<Rightarrow> ref \<Rightarrow> ref \<Rightarrow> real \<Rightarrow> heap \<Rightarrow> ref \<times> heap" where
  "basisSlerp out a b t h =
     (let (qa, h) = basisToQuat a h;
          (qb, h) = basisToQuat b h;
          dot = get h qa 0 * get h qb 0 + get h qa 1 * get h qb 1 +
                get h qa 2 * get h qb 2 + get h qa 3 * get h qb 3;
          (dot, h) =
            (if dot < 0 then
               (let h = put qb 0 (- get h qb 0) h;
                    h = put qb 1 (- get h qb 1) h;
                    h = put qb 2 (- get h qb 2) h;
                    h = put qb 3 (- get h qb 3) h
                in (- dot, h))
             else (dot, h))
      in
      if dot > 9995 / 10000 then
        (let (qOut, h) = alloc [get h qa 0 + t * (get h qb 0 - get h qa 0),
                                get h qa 1 + t * (get h qb 1 - get h qa 1),
                                get h qa 2 + t * (get h qb 2 - get h qa 2),
                                get h qa 3 + t * (get h qb 3 - get h qa 3)] h;
             len = sqrt (get h qOut 0 * get h qOut 0 + get h qOut 1 * get h qOut 1 +
                         get h qOut 2 * get h qOut 2 + get h qOut 3 * get h qOut 3);
             h = (if len > EPSILON then
                    (let h = put qOut 0 (get h qOut 0 / len) h;
                         h = put qOut 1 (get h qOut 1 / len) h;
                         h = put qOut 2 (get h qOut 2 / len) h;
                         h = put qOut 3 (get h qOut 3 / len) h
                     in h)
                  else h)
         in basisFromQuat qOut h)
      else
        (let theta0 = arccos \<bar>dot\<bar>;
             sinTheta0 = sin theta0;
             theta = theta0 * t;
             sinTheta = sin theta;
             s0 = cos theta - dot * sinTheta / sinTheta0;
             s1 = sinTheta / sinTheta0;
             (qOut, h) = alloc [s0 * get h qa 0 + s1 * get h qb 0,
                                s0 * get h qa 1 + s1 * get h qb 1,
                                s0 * get h qa 2 + s1 * get h qb 2,
                                s0 * get h qa 3 + s1 * get h qb 3] h
         in basisFromQuat qOut h))"

definition basisRotate :: "ref \<Rightarrow> ref \<Rightarrow> ref \<Rightarrow> real \<Rightarrow> heap \<Rightarrow> ref \<times> heap" where
  "basisRotate out b axis angle h =
     (let (rotationBasis, h) = basisFromAxisAngle axis angle h
      in basisMul out rotationBasis b h)"

definition basisRotateLocal :: "ref \<Rightarrow> ref \<Rightarrow> ref \<Rightarrow> real \<Rightarrow> heap \<Rightarrow> ref \<times> heap" where
  "basisRotateLocal out b axis angle h =
     (let (rotationBasis, h) = basisFromAxisAngle axis angle h
      in basisMul out b rotationBasis h)"

section \<open>mat3.ts\<close>

text \<open>\<^verbatim>\<open>mat3Invert\<close> returns \<^verbatim>\<open>mat3 | null\<close>: \<open>None\<close> is \<^verbatim>\<open>null\<close>.\<close>

definition mat3Invert :: "ref \<Rightarrow> ref \<Rightarrow> heap \<Rightarrow> ref option \<times> heap" where
  "mat3Invert out a h =
     (let a00 = get h a 0; a01 = get h a 1; a02 = get h a 2;
          a10 = get h a 3; a11 = get h a 4; a12 = get h a 5;
          a20 = get h a 6; a21 = get h a 7; a22 = get h a 8;
          b01 = a22 * a11 - a12 * a21;
          b11 = - a22 * a10 + a12 * a20;
          b21 = a21 * a10 - a11 * a20;
          det = a00 * b01 + a01 * b11 + a02 * b21
      in
      if \<bar>det\<bar> < EPSILON then (None, h)
      else
        (let det = 1 / det;
             h = put out 0 (b01 * det) h;
             h = put out 1 ((- a22 * a01 + a02 * a21) * det) h;
             h = put out 2 ((a12 * a01 - a02 * a11) * det) h;
             h = put out 3 (b11 * det) h;
             h = put out 4 ((a22 * a00 - a02 * a20) * det) h;
             h = put out 5 ((- a12 * a00 + a02 * a10) * det) h;
             h = put out 6 (b21 * det) h;
             h = put out 7 ((- a21 * a00 + a01 * a20) * det) h;
             h = put out 8 ((a11 * a00 - a01 * a10) * det) h
         in (Some out, h)))"

definition mat3Determinant :: "ref \<Rightarrow> heap \<Rightarrow> real" where
  "mat3Determinant a h =
     (let a00 = get h a 0; a01 = get h a 1; a02 = get h a 2;
          a10 = get h a 3; a11 = get h a 4; a12 = get h a 5;
          a20 = get h a 6; a21 = get h a 7; a22 = get h a 8
      in a00 * (a11 * a22 - a12 * a21)
         - a01 * (a10 * a22 - a12 * a20)
         + a02 * (a10 * a21 - a11 * a20))"

section \<open>mat4.ts\<close>

text \<open>
  \<^verbatim>\<open>mat4Mul\<close> caches all of \<^verbatim>\<open>a\<close>, then one group of four entries of \<^verbatim>\<open>b\<close> at a
  time, each group read just before the four entries of \<^verbatim>\<open>out\<close> it produces.
\<close>

definition mat4Mul :: "ref \<Rightarrow> ref \<Rightarrow> ref \<Rightarrow> heap \<Rightarrow> ref \<times> heap" where
  "mat4Mul out a b h =
     (let a00 = get h a 0; a01 = get h a 1; a02 = get h a 2; a03 = get h a 3;
          a10 = get h a 4; a11 = get h a 5; a12 = get h a 6; a13 = get h a 7;
          a20 = get h a 8; a21 = get h a 9; a22 = get h a 10; a23 = get h a 11;
          a30 = get h a 12; a31 = get h a 13; a32 = get h a 14; a33 = get h a 15;
          b0 = get h b 0; b1 = get h b 1; b2 = get h b 2; b3 = get h b 3;
          h = put out 0 (b0 * a00 + b1 * a10 + b2 * a20 + b3 * a30) h;
          h = put out 1 (b0 * a01 + b1 * a11 + b2 * a21 + b3 * a31) h;
          h = put out 2 (b0 * a02 + b1 * a12 + b2 * a22 + b3 * a32) h;
          h = put out 3 (b0 * a03 + b1 * a13 + b2 * a23 + b3 * a33) h;
          b0 = get h b 4; b1 = get h b 5; b2 = get h b 6; b3 = get h b 7;
          h = put out 4 (b0 * a00 + b1 * a10 + b2 * a20 + b3 * a30) h;
          h = put out 5 (b0 * a01 + b1 * a11 + b2 * a21 + b3 * a31) h;
          h = put out 6 (b0 * a02 + b1 * a12 + b2 * a22 + b3 * a32) h;
          h = put out 7 (b0 * a03 + b1 * a13 + b2 * a23 + b3 * a33) h;
          b0 = get h b 8; b1 = get h b 9; b2 = get h b 10; b3 = get h b 11;
          h = put out 8 (b0 * a00 + b1 * a10 + b2 * a20 + b3 * a30) h;
          h = put out 9 (b0 * a01 + b1 * a11 + b2 * a21 + b3 * a31) h;
          h = put out 10 (b0 * a02 + b1 * a12 + b2 * a22 + b3 * a32) h;
          h = put out 11 (b0 * a03 + b1 * a13 + b2 * a23 + b3 * a33) h;
          b0 = get h b 12; b1 = get h b 13; b2 = get h b 14; b3 = get h b 15;
          h = put out 12 (b0 * a00 + b1 * a10 + b2 * a20 + b3 * a30) h;
          h = put out 13 (b0 * a01 + b1 * a11 + b2 * a21 + b3 * a31) h;
          h = put out 14 (b0 * a02 + b1 * a12 + b2 * a22 + b3 * a32) h;
          h = put out 15 (b0 * a03 + b1 * a13 + b2 * a23 + b3 * a33) h
      in (out, h))"

definition mat4FromTranslation :: "ref \<Rightarrow> heap \<Rightarrow> ref \<times> heap" where
  "mat4FromTranslation v h =
     alloc [1, 0, 0, 0,
            0, 1, 0, 0,
            0, 0, 1, 0,
            get h v 0, get h v 1, get h v 2, 1] h"

definition mat4FromScale :: "ref \<Rightarrow> heap \<Rightarrow> ref \<times> heap" where
  "mat4FromScale v h =
     alloc [get h v 0, 0, 0, 0,
            0, get h v 1, 0, 0,
            0, 0, get h v 2, 0,
            0, 0, 0, 1] h"

definition mat4TransformVec3 :: "ref \<Rightarrow> ref \<Rightarrow> ref \<Rightarrow> heap \<Rightarrow> ref \<times> heap" where
  "mat4TransformVec3 out m v h =
     (let x = get h v 0; y = get h v 1; z = get h v 2;
          w = get h m 3 * x + get h m 7 * y + get h m 11 * z + get h m 15;
          h = put out 0 (get h m 0 * x + get h m 4 * y + get h m 8 * z + get h m 12) h;
          h = put out 1 (get h m 1 * x + get h m 5 * y + get h m 9 * z + get h m 13) h;
          h = put out 2 (get h m 2 * x + get h m 6 * y + get h m 10 * z + get h m 14) h;
          h = (if w \<noteq> 0 then
                 (let h = put out 0 (get h out 0 / w) h;
                      h = put out 1 (get h out 1 / w) h;
                      h = put out 2 (get h out 2 / w) h
                  in h)
               else h)
      in (out, h))"

section \<open>color.ts\<close>

text \<open>
  The remainder \<^verbatim>\<open>x % y\<close> of JavaScript truncates the quotient towards zero, so the
  result has the sign of \<open>x\<close>.
\<close>

definition js_rem :: "real \<Rightarrow> real \<Rightarrow> real" where
  "js_rem x y = x - y * of_int (if x / y < 0 then \<lceil>x / y\<rceil> else \<lfloor>x / y\<rfloor>)"

definition lerpHsv :: "ref \<Rightarrow> ref \<Rightarrow> ref \<Rightarrow> real \<Rightarrow> heap \<Rightarrow> ref \<times> heap" where
  "lerpHsv out a b t h =
     (let hDiff = get h b 0 - get h a 0;
          hDiff = (if hDiff > 180 then hDiff - 360 else hDiff);
          hDiff = (if hDiff < - 180 then hDiff + 360 else hDiff);
          h = put out 0 (js_rem (get h a 0 + hDiff * t + 360) 360) h;
          h = put out 1 (get h a 1 + (get h b 1 - get h a 1) * t) h;
          h = put out 2 (get h a 2 + (get h b 2 - get h a 2) * t) h
      in (out, h))"

section \<open>The values the operations compute\<close>

text \<open>
  The array an operation produces, as a function of the arrays it is given: the
  operation is run in a store that holds just its arguments, with a separate
  output array where it takes one.
\<close>

definition vec3_normalize :: "real list \<Rightarrow> real list" where
  "vec3_normalize v = result (vec3Normalize 0 1 (heap_of [[0, 0, 0], v]))"

definition vec3_lerp :: "real list \<Rightarrow> real list \<Rightarrow> real \<Rightarrow> real list" where
  "vec3_lerp a b t = result (vec3Lerp 0 1 2 t (heap_of [[0, 0, 0], a, b]))"

definition quat_of_basis :: "real list \<Rightarrow> real list" where
  "quat_of_basis m = result (basisToQuat 0 (heap_of [m]))"

definition basis_of_quat :: "real list \<Rightarrow> real list" where
  "basis_of_quat q = result (basisFromQuat 0 (heap_of [q]))"

definition quat_lerp :: "real list \<Rightarrow> real list \<Rightarrow> real \<Rightarrow> real list" where
  "quat_lerp qa qb t = result (quatLerp 0 1 2 t (heap_of [[0, 0, 0, 0], qa, qb]))"

definition quat_slerp :: "real list \<Rightarrow> real list \<Rightarrow> real \<Rightarrow> real list" where
  "quat_slerp qa qb t = result (quatSlerp 0 1 2 t (heap_of [[0, 0, 0, 0], qa, qb]))"

definition axis_angle_basis :: "real list \<Rightarrow> real \<Rightarrow> real list" where
  "axis_angle_basis axis angle = result (basisFromAxisAngle 0 angle (heap_of [axis]))"

section \<open>Notions of the specification\<close>

text \<open>The dot product of two quaternions, and the quaternions of unit length.\<close>

definition quat_dot :: "real list \<Rightarrow> real list \<Rightarrow> real" where
  "quat_dot p q = p ! 0 * q ! 0 + p ! 1 * q ! 1 + p ! 2 * q ! 2 + p ! 3 * q ! 3"

definition unit_quat :: "real list \<Rightarrow> bool" where
  "unit_quat q \<longleftrightarrow> length q = 4 \<and> quat_dot q q = 1"

text \<open>
  Spherical interpolation as the specification words it: negate \<open>b\<close> when the dot
  product is negative; when \<open>|dot| > 0.9995\<close> return the componentwise linear
  interpolation divided by its length; otherwise combine \<open>a\<close> and \<open>b\<close> with the
  weights \<open>sin((1 - t) \<theta>) / sin \<theta>\<close> and \<open>sin(t \<theta>) / sin \<theta>\<close> of the standard formula,
  \<open>\<theta> = acos |dot|\<close>.
\<close>

definition slerp_spec :: "real list \<Rightarrow> real list \<Rightarrow> real \<Rightarrow> real list" where
  "slerp_spec a b t =
     (let d = quat_dot a b;
          b' = (if d < 0 then map uminus b else b);
          \<theta> = arccos \<bar>d\<bar>
      in if \<bar>d\<bar> > 9995 / 10000 then
           (let l = map2 (\<lambda>x y. x + t * (y - x)) a b'
            in map (\<lambda>x. x / sqrt (quat_dot l l)) l)
         else
           map2 (\<lambda>x y. sin ((1 - t) * \<theta>) / sin \<theta> * x + sin (t * \<theta>) / sin \<theta> * y) a b')"

text \<open>
  The product of two 3x3 matrices stored row by row, as a \<^verbatim>\<open>basis\<close> is: entry
  \<open>(i, j)\<close> of \<open>A \<times> B\<close> is row \<open>i\<close> of \<open>A\<close> times column \<open>j\<close> of \<open>B\<close>.
\<close>

definition basis_entry :: "real list \<Rightarrow> real list \<Rightarrow> nat \<Rightarrow> nat \<Rightarrow> real" where
  "basis_entry A B i j = A ! (3 * i) * B ! j + A ! (3 * i + 1) * B ! (3 + j) + A ! (3 * i + 2) * B ! (6 + j)"

definition basis_prod :: "real list \<Rightarrow> real list \<Rightarrow> real list" where
  "basis_prod A B =
     [basis_entry A B 0 0, basis_entry A B 0 1, basis_entry A B 0 2,
      basis_entry A B 1 0, basis_entry A B 1 1, basis_entry A B 1 2,
      basis_entry A B 2 0, basis_entry A B 2 1, basis_entry A B 2 2]"

text \<open>The identity matrix, as nine numbers.\<close>

definition identity3 :: "real list" where
  "identity3 = [1, 0, 0, 0, 1, 0, 0, 0, 1]"

text \<open>
  The conventional product of two 4x4 matrices in the column-major layout of
  \<^verbatim>\<open>mat4\<close> (entry \<open>(row r, column c)\<close> is stored at index \<open>4 * c + r\<close>; this is the
  layout in which \<^verbatim>\<open>mat4FromTranslation\<close> puts the translation at 12..14 and
  \<^verbatim>\<open>mat4TransformVec3\<close> multiplies a column vector): entry \<open>(r, c)\<close> of \<open>A \<times> B\<close> is
  the sum over \<open>k\<close> of \<open>A(r, k) * B(k, c)\<close>. \<open>mat4_apply M x\<close> is \<open>M\<close> times the column
  vector \<open>x\<close>.
\<close>

definition mat4_entry :: "real list \<Rightarrow> real list \<Rightarrow> nat \<Rightarrow> nat \<Rightarrow> real" where
  "mat4_entry A B c r =
     A ! r * B ! (4 * c) + A ! (4 + r) * B ! (4 * c + 1) +
     A ! (8 + r) * B ! (4 * c + 2) + A ! (12 + r) * B ! (4 * c + 3)"

definition mat4_prod :: "real list \<Rightarrow> real list \<Rightarrow> real list" where
  "mat4_prod A B =
     [mat4_entry A B 0 0, mat4_entry A B 0 1, mat4_entry A B 0 2, mat4_entry A B 0 3,
      mat4_entry A B 1 0, mat4_entry A B 1 1, mat4_entry A B 1 2, mat4_entry A B 1 3,
      mat4_entry A B 2 0, mat4_entry A B 2 1, mat4_entry A B 2 2, mat4_entry A B 2 3,
      mat4_entry A B 3 0, mat4_entry A B 3 1, mat4_entry A B 3 2, mat4_entry A B 3 3]"

definition mat4_apply :: "real list \<Rightarrow> real list \<Rightarrow> real list" where
  "mat4_apply M x =
     [M ! 0 * x ! 0 + M ! 4 * x ! 1 + M ! 8 * x ! 2 + M ! 12 * x ! 3,
      M ! 1 * x ! 0 + M ! 5 * x ! 1 + M ! 9 * x ! 2 + M ! 13 * x ! 3,
      M ! 2 * x ! 0 + M ! 6 * x ! 1 + M ! 10 * x ! 2 + M ! 14 * x ! 3,
      M ! 3 * x ! 0 + M ! 7 * x ! 1 + M ! 11 * x ! 2 + M ! 15 * x ! 3]"

text \<open>
  The hue difference the specification asks for: the raw difference, wrapped by
  a full turn when it exceeds half a turn in magnitude.
\<close>

definition hue_delta :: "real \<Rightarrow> real \<Rightarrow> real" where
  "hue_delta a0 b0 =
     (if b0 - a0 > 180 then b0 - a0 - 360
      else if b0 - a0 < - 180 then b0 - a0 + 360
      else b0 - a0)"

section \<open>Concrete stores\<close>


text \<open>An output basis at 0, the identity at 1 and a rotation by a third of a turn at 2.\<close>

definition three_bases :: heap where
  "three_bases = heap_of [[9, 9, 9, 9, 9, 9, 9, 9, 9],
                          [1, 0, 0, 0, 1, 0, 0, 0, 1],
                          [0, 1, 0, 0, 0, 1, 1, 0, 0]]"

text \<open>An output at 0 and the colours \<open>[350, 1, 1]\<close> and \<open>[10, 1, 1]\<close> at 1 and 2.\<close>

definition hsv_example :: heap where
  "hsv_example = heap_of [[0, 0, 0], [350, 1, 1], [10, 1, 1]]"

text \<open>
  The matrices of the repository's own \<^verbatim>\<open>mat4Mul\<close> test: an output at 0, the
  translation by \<open>(1, 2, 3)\<close> at 1, the scaling by 2 at 2; vectors at 3 to 7.
\<close>

definition mat4_example :: heap where
  "mat4_example = heap_of
     [[0, 0, 0, 0, 0, 0, 0, 0, 0, 0, 0, 0, 0, 0, 0, 0],
      [1, 0, 0, 0, 0, 1, 0, 0, 0, 0, 1, 0, 1, 2, 3, 1],
      [2, 0, 0, 0, 0, 2, 0, 0, 0, 0, 2, 0, 0, 0, 0, 1],
      [1, 0, 0],
      [0, 0, 0],
      [0, 0, 0],
      [1, 2, 3],
      [2, 2, 2]]"

text \<open>
  Output bases at 0 and 3, the rotation by a quarter turn about X at 1, the axis Z
  at 2 and the identity basis at 4.
\<close>

definition rot_example :: heap where
  "rot_example = heap_of [[0, 0, 0, 0, 0, 0, 0, 0, 0],
                          [1, 0, 0, 0, 0, 1, 0, - 1, 0],
                          [0, 0, 1],
                          [0, 0, 0, 0, 0, 0, 0, 0, 0],
                          [1, 0, 0, 0, 1, 0, 0, 0, 1]]"

text \<open>
  An output at 0, two singular matrices at 1 and 3 (determinant 0) and the
  regular matrix \<open>diag(2, 1, 1)\<close> at 2.
\<close>

definition inverse_example :: heap where
  "inverse_example = heap_of [[5, 5, 5, 5, 5, 5, 5, 5, 5],
                              [0, 0, 0, 0, 0, 0, 0, 0, 0],
                              [2, 0, 0, 0, 1, 0, 0, 0, 1],
                              [1, 2, 3, 2, 4, 6, 0, 0, 1]]"

text \<open>
  A zeroed output basis at 0 and, at 1, the skewed basis of the repository's
  \<^verbatim>\<open>basisOrthonormalize\<close> test.
\<close>

definition skewed :: heap where
  "skewed = heap_of [[0, 0, 0, 0, 0, 0, 0, 0, 0], [2, 0, 0, 1, 1, 0, 0, 0, 1]]"

text \<open>An output at 0 and the unit quaternions \<open>(0, 0, 0, 1)\<close> and \<open>(1, 0, 0, 0)\<close> at 1 and 2.\<close>

definition half_turn :: heap where
  "half_turn = heap_of [[9, 9, 9, 9], [0, 0, 0, 1], [1, 0, 0, 0]]"

text \<open>
  A quaternion output at 0 and unit quaternions at 1 and 2; a basis output at 3,
  the identity basis at 4 and a rotation by a third of a turn at 5.
\<close>

definition slerp_example :: heap where
  "slerp_example = heap_of [[9, 9, 9, 9], [0, 0, 0, 1], [1, 0, 0, 0],
                            [9, 9, 9, 9, 9, 9, 9, 9, 9],
                            [1, 0, 0, 0, 1, 0, 0, 0, 1],
                            [0, 1, 0, 0, 0, 1, 1, 0, 0]]"

text \<open>
  A quaternion output at 0, the quaternion \<open>(0, 0, 0, 2)\<close> at 1 and the unit
  quaternions \<open>(0, 0, 0, 1)\<close> and \<open>(0, 0, 0, -1)\<close> at 2 and 3; a basis output at 4, a
  rotation by a third of a turn at 5 and the identity basis at 6; a vector output at
  7 and two vectors at 8 and 9.
\<close>

definition boundary_example :: heap where
  "boundary_example = heap_of [[9, 9, 9, 9], [0, 0, 0, 2], [0, 0, 0, 1], [0, 0, 0, - 1],
                               [9, 9, 9, 9, 9, 9, 9, 9, 9],
                               [0, 1, 0, 0, 0, 1, 1, 0, 0],
                               [1, 0, 0, 0, 1, 0, 0, 0, 1],
                               [9, 9, 9], [1, 2, 3], [4, 5, 6]]"

text \<open>
  An output at 0 and the unit quaternions \<open>(1, 0, 0, 0)\<close> and \<open>(0, 0, 1, 0)\<close> at 1 and
  2, for a call of \<^verbatim>\<open>quatSlerp\<close> whose output is its first operand.
\<close>

definition slerp_in_place :: heap where
  "slerp_in_place = heap_of [[9, 9, 9, 9], [1, 0, 0, 0], [0, 0, 1, 0]]"

text \<open>
  A matrix of determinant 1 at 0 and an output at 1, for a call of
  \<^verbatim>\<open>basisInverse\<close> whose output is its input.
\<close>

definition inverse_in_place :: heap where
  "inverse_in_place = heap_of [[1, 2, 3, 0, 1, 4, 5, 6, 0],
                               [9, 9, 9, 9, 9, 9, 9, 9, 9]]"

section \<open>Store lemmas\<close>

text \<open>
  The simplifier evaluates a chain of \<^verbatim>\<open>let\<close>s from the outside in under these
  congruence rules, so each intermediate store is normalised once.
\<close>

lemmas heap_cong = let_weak_cong prod.case_cong_weak if_cong



lemma len3D: "length xs = 3 \<Longrightarrow> \<exists>a b c. xs = [a, b, c]"
  by (auto simp: length_Suc_conv numeral_eq_Suc)

lemma len4D: "length xs = 4 \<Longrightarrow> \<exists>a b c d. xs = [a, b, c, d]"
  by (auto simp: length_Suc_conv numeral_eq_Suc)

text \<open>Allocation returns the next reference and touches no existing array.\<close>

lemma alloc_simps:
  "fst (alloc xs h) = next_ref h"
  "next_ref (snd (alloc xs h)) = Suc (next_ref h)"
  "cells (snd (alloc xs h)) p = (if p = next_ref h then xs else cells h p)"
  by (simp_all add: alloc_def)

lemma neq_above:
  "p < n \<Longrightarrow> p \<noteq> n"
  "p < n \<Longrightarrow> p \<noteq> Suc n"
  "p < n \<Longrightarrow> p \<noteq> Suc (Suc n)"
  "p < n \<Longrightarrow> p \<noteq> Suc (Suc (Suc n))"
  "p < n \<Longrightarrow> p \<noteq> Suc (Suc (Suc (Suc n)))"
  "p < n \<Longrightarrow> p \<noteq> Suc (Suc (Suc (Suc (Suc n))))"
  "p < n \<Longrightarrow> p \<noteq> Suc (Suc (Suc (Suc (Suc (Suc n)))))"
  "p < n \<Longrightarrow> p \<noteq> Suc (Suc (Suc (Suc (Suc (Suc (Suc n))))))"
  "p < n \<Longrightarrow> p \<noteq> Suc (Suc (Suc (Suc (Suc (Suc (Suc (Suc n)))))))"
  by simp_all

section \<open>Conversions and interpolation as values\<close>

lemma basisToQuat_alloc: "basisToQuat b h = alloc (quat_of_basis (cells h b)) h"
  by (simp add: quat_of_basis_def basisToQuat_def result_def alloc_def get_def heap_of_def Let_def
      cong: heap_cong)

lemma basisFromQuat_alloc: "basisFromQuat q h = alloc (basis_of_quat (cells h q)) h"
  by (simp add: basis_of_quat_def basisFromQuat_def result_def alloc_def get_def heap_of_def Let_def
      cong: heap_cong)

lemma length_quat_of_basis: "length (quat_of_basis m) = 4"
  by (simp add: quat_of_basis_def basisToQuat_def result_def alloc_def get_def heap_of_def Let_def
      cong: heap_cong)

lemma quat_of_basis_cases: "\<exists>x y z w. quat_of_basis m = [x, y, z, w]"
  using length_quat_of_basis len4D by blast

lemma quat_lerp_eq:
  "quat_lerp [a0, a1, a2, a3] [b0, b1, b2, b3] t =
     (let q0 = a0 + t * (b0 - a0); q1 = a1 + t * (b1 - a1);
          q2 = a2 + t * (b2 - a2); q3 = a3 + t * (b3 - a3);
          len = sqrt (q0 * q0 + q1 * q1 + q2 * q2 + q3 * q3)
      in if len > EPSILON then [q0 / len, q1 / len, q2 / len, q3 / len] else [q0, q1, q2, q3])"
  by (simp add: quat_lerp_def quatLerp_def result_def put_def get_def heap_of_def Let_def
      cong: heap_cong)

text \<open>
  \<^verbatim>\<open>basisLerp\<close> allocates four arrays (the two converted quaternions, the
  interpolated one and the returned basis) and writes to no other.
\<close>

lemma basisLerp_eq:
  assumes "a < next_ref h" "b < next_ref h"
  shows "basisLerp out a b t h =
     (Suc (Suc (Suc (next_ref h))),
      Heap ((cells h)
           (next_ref h := quat_of_basis (cells h a),
            Suc (next_ref h) := quat_of_basis (cells h b),
            Suc (Suc (next_ref h)) :=
              quat_lerp (quat_of_basis (cells h a)) (quat_of_basis (cells h b)) t,
            Suc (Suc (Suc (next_ref h))) :=
              basis_of_quat (quat_lerp (quat_of_basis (cells h a)) (quat_of_basis (cells h b)) t)))
         (Suc (Suc (Suc (Suc (next_ref h))))))"
proof -
  obtain a0 a1 a2 a3 where qa: "quat_of_basis (cells h a) = [a0, a1, a2, a3]"
    using quat_of_basis_cases by blast
  obtain b0 b1 b2 b3 where qb: "quat_of_basis (cells h b) = [b0, b1, b2, b3]"
    using quat_of_basis_cases by blast
  have ne: "a \<noteq> next_ref h" "b \<noteq> next_ref h" "b \<noteq> Suc (next_ref h)"
    using assms by simp_all
  show ?thesis
    by (simp add: basisLerp_def basisToQuat_alloc basisFromQuat_alloc qa qb quat_lerp_eq ne
        alloc_def get_def put_def Let_def cong: heap_cong)
qed

text \<open>
  \<^verbatim>\<open>basisSlerp\<close> does the same; the only array it overwrites is its own copy
  \<^verbatim>\<open>qb\<close>, negated when the dot product is negative.
\<close>

lemma basisSlerp_eq:
  assumes "a < next_ref h" "b < next_ref h"
  shows "basisSlerp out a b t h =
     (Suc (Suc (Suc (next_ref h))),
      Heap ((cells h)
           (next_ref h := quat_of_basis (cells h a),
            Suc (next_ref h) :=
              (if quatDot 0 1 (heap_of [quat_of_basis (cells h a), quat_of_basis (cells h b)]) < 0
               then map uminus (quat_of_basis (cells h b)) else quat_of_basis (cells h b)),
            Suc (Suc (next_ref h)) :=
              quat_slerp (quat_of_basis (cells h a)) (quat_of_basis (cells h b)) t,
            Suc (Suc (Suc (next_ref h))) :=
              basis_of_quat (quat_slerp (quat_of_basis (cells h a)) (quat_of_basis (cells h b)) t)))
         (Suc (Suc (Suc (Suc (next_ref h))))))"
proof -
  obtain a0 a1 a2 a3 where qa: "quat_of_basis (cells h a) = [a0, a1, a2, a3]"
    using quat_of_basis_cases by blast
  obtain b0 b1 b2 b3 where qb: "quat_of_basis (cells h b) = [b0, b1, b2, b3]"
    using quat_of_basis_cases by blast
  have ne: "a \<noteq> next_ref h" "b \<noteq> next_ref h" "b \<noteq> Suc (next_ref h)"
    using assms by simp_all
  show ?thesis
    by (simp add: basisSlerp_def basisToQuat_alloc basisFromQuat_alloc qa qb ne
        quat_slerp_def quatSlerp_def quatDot_def result_def heap_of_def
        alloc_def get_def put_def Let_def cong: heap_cong)
qed

section \<open>Zero-length input to the normalizers\<close>



section \<open>The basis interpolations and their output parameter\<close>

text \<open>
  C10. \<^verbatim>\<open>basisLerp\<close> and \<^verbatim>\<open>basisSlerp\<close> never write to \<^verbatim>\<open>out\<close>: in a store where
  \<^verbatim>\<open>out\<close>, \<^verbatim>\<open>a\<close> and \<^verbatim>\<open>b\<close> are allocated, the call leaves \<^verbatim>\<open>out\<close> (and every
  other array that existed before) unchanged, and the reference it returns is a new
  array, different from \<^verbatim>\<open>out\<close>, holding \<^verbatim>\<open>basisFromQuat\<close> of the interpolated
  quaternion.
\<close>

theorem basis_interpolation_ignores_out:
  assumes "out < next_ref h" and "a < next_ref h" and "b < next_ref h"
    and "length (cells h out) = 9" and "length (cells h a) = 9" and "length (cells h b) = 9"
  shows "cells (snd (basisLerp out a b t h)) out = cells h out \<and>
         cells (snd (basisSlerp out a b t h)) out = cells h out \<and>
         (\<forall>p<next_ref h. cells (snd (basisLerp out a b t h)) p = cells h p) \<and>
         (\<forall>p<next_ref h. cells (snd (basisSlerp out a b t h)) p = cells h p) \<and>
         next_ref h \<le> fst (basisLerp out a b t h) \<and>
         next_ref h \<le> fst (basisSlerp out a b t h) \<and>
         fst (basisLerp out a b t h) \<noteq> out \<and>
         fst (basisSlerp out a b t h) \<noteq> out \<and>
         result (basisLerp out a b t h) =
           basis_of_quat (quat_lerp (quat_of_basis (cells h a)) (quat_of_basis (cells h b)) t) \<and>
         result (basisSlerp out a b t h) =
           basis_of_quat (quat_slerp (quat_of_basis (cells h a)) (quat_of_basis (cells h b)) t)"
  using assms
  by (simp add: basisLerp_eq basisSlerp_eq result_def)

theorem basis_interpolation_ignores_out_witness:
  "(0 < next_ref three_bases \<and> 1 < next_ref three_bases \<and> 2 < next_ref three_bases \<and>
    length (cells three_bases 0) = 9 \<and> length (cells three_bases 1) = 9 \<and>
    length (cells three_bases 2) = 9) \<and>
   cells (snd (basisLerp 0 1 2 (1 / 2) three_bases)) 0 = [9, 9, 9, 9, 9, 9, 9, 9, 9] \<and>
   cells (snd (basisSlerp 0 1 2 (1 / 2) three_bases)) 0 = [9, 9, 9, 9, 9, 9, 9, 9, 9] \<and>
   fst (basisLerp 0 1 2 (1 / 2) three_bases) \<noteq> 0 \<and>
   fst (basisSlerp 0 1 2 (1 / 2) three_bases) \<noteq> 0"
proof -
  have wf: "0 < next_ref three_bases" "1 < next_ref three_bases" "2 < next_ref three_bases"
    "length (cells three_bases 0) = 9" "length (cells three_bases 1) = 9"
    "length (cells three_bases 2) = 9"
    by (simp_all add: three_bases_def heap_of_def)
  have "cells three_bases 0 = [9, 9, 9, 9, 9, 9, 9, 9, 9]"
    by (simp add: three_bases_def heap_of_def)
  then show ?thesis
    using wf basis_interpolation_ignores_out [OF wf, of "1 / 2"] by simp
qed

section \<open>Hue interpolation\<close>

lemma js_rem_range:
  assumes "0 \<le> x"
  shows "0 \<le> js_rem x 360 \<and> js_rem x 360 < 360 \<and>
         (\<exists>k::int. js_rem x 360 = x - 360 * of_int k \<and> 0 \<le> k \<and> of_int k \<le> x / 360)"
proof -
  have nn: "\<not> x / 360 < 0" using assms by simp
  have e: "js_rem x 360 = x - 360 * of_int \<lfloor>x / 360\<rfloor>"
    using nn by (simp add: js_rem_def)
  have f1: "of_int \<lfloor>x / 360\<rfloor> \<le> x / 360" by (rule of_int_floor_le)
  have f2: "x / 360 < of_int \<lfloor>x / 360\<rfloor> + 1" by linarith
  have f3: "0 \<le> \<lfloor>x / 360\<rfloor>" using assms by simp
  from f1 f2 f3 e show ?thesis
    by (intro conjI exI[of _ "\<lfloor>x / 360\<rfloor>"]) (simp_all add: field_simps)
qed

text \<open>\<^verbatim>\<open>lerpHsv\<close> reads each component before it writes it, whatever is aliased.\<close>

lemma lerpHsv_eq:
  assumes "length (cells h out) = 3"
  shows "lerpHsv out a b t h =
     (out, Heap ((cells h)(out :=
        [js_rem (get h a 0 + hue_delta (get h a 0) (get h b 0) * t + 360) 360,
         get h a 1 + (get h b 1 - get h a 1) * t,
         get h a 2 + (get h b 2 - get h a 2) * t])) (next_ref h))"
proof -
  obtain x y z where o: "cells h out = [x, y, z]" using assms len3D by blast
  show ?thesis
    using o
    by (cases "out = a"; cases "out = b")
       (simp_all add: lerpHsv_def hue_delta_def get_def put_def Let_def cong: heap_cong)
qed

text \<open>
  C9, as stated, fails for \<open>t\<close> outside \<open>[0, 1]\<close>: from hue 0 to hue 90 with
  \<open>t = -5\<close> the sum \<open>0 + 90 * (-5) + 360\<close> is \<open>-90\<close>, and the remainder keeps the sign
  of the dividend, so the resulting hue is \<open>-90\<close>, outside \<open>[0, 360)\<close>.
\<close>

theorem lerpHsv_hue_counterexample:
  "result (lerpHsv 0 1 2 (- 5) (heap_of [[0, 0, 0], [0, 1, 1], [90, 1, 1]])) ! 0 = - 90"
proof -
  have "\<lceil>- (1 / 4) :: real\<rceil> = 0" by (simp add: ceiling_eq_iff)
  then show ?thesis
    by (simp add: heap_of_def lerpHsv_def js_rem_def
        result_def get_def put_def Let_def cong: heap_cong)
qed

text \<open>
  C9, amended. For hues in \<open>[0, 360)\<close> and \<open>t\<close> in \<open>[0, 1]\<close> (the range the source
  documents for \<open>t\<close>), the hue written by \<^verbatim>\<open>lerpHsv\<close> is
  \<open>(a[0] + d * t + 360) % 360\<close> where \<open>d\<close> is the hue difference wrapped into
  \<open>[-180, 180]\<close>; it lies in \<open>[0, 360)\<close> and differs from \<open>a[0] + d * t\<close> by a
  whole number of turns. The witness is the example of the specification:
  \<open>lerpHsv([350, 1, 1], [10, 1, 1], 0.5)\<close> has hue 0.
\<close>

theorem lerpHsv_hue:
  assumes "length (cells h out) = 3"
    and "0 \<le> get h a 0" and "get h a 0 < 360"
    and "0 \<le> get h b 0" and "get h b 0 < 360"
    and "0 \<le> t" and "t \<le> 1"
    and "length (cells h a) = 3" and "length (cells h b) = 3"
  shows "\<bar>hue_delta (get h a 0) (get h b 0)\<bar> \<le> 180 \<and>
         result (lerpHsv out a b t h) ! 0 =
           js_rem (get h a 0 + hue_delta (get h a 0) (get h b 0) * t + 360) 360 \<and>
         0 \<le> result (lerpHsv out a b t h) ! 0 \<and>
         result (lerpHsv out a b t h) ! 0 < 360 \<and>
         (\<exists>k::int. result (lerpHsv out a b t h) ! 0 =
            get h a 0 + hue_delta (get h a 0) (get h b 0) * t + 360 * of_int k)"
proof -
  define d where "d = hue_delta (get h a 0) (get h b 0)"
  define x where "x = get h a 0 + d * t + 360"
  have d: "\<bar>d\<bar> \<le> 180"
    using assms(2-5) by (auto simp: d_def hue_delta_def)
  have "\<bar>d * t\<bar> \<le> 180 * 1"
    unfolding abs_mult using d assms(6,7) by (intro mult_mono) simp_all
  then have x0: "0 \<le> x" using assms(2) by (simp add: x_def abs_le_iff)
  have r: "result (lerpHsv out a b t h) ! 0 = js_rem x 360"
    by (simp add: lerpHsv_eq [OF assms(1)] result_def x_def d_def)
  obtain k :: int where k: "js_rem x 360 = x - 360 * of_int k"
    using js_rem_range [OF x0] by blast
  have "js_rem x 360 = get h a 0 + d * t + 360 * of_int (1 - k)"
    using k by (simp add: x_def algebra_simps)
  then have ex: "\<exists>k::int. result (lerpHsv out a b t h) ! 0 = get h a 0 + d * t + 360 * of_int k"
    using r by metis
  show ?thesis
    using d r ex js_rem_range [OF x0] unfolding d_def [symmetric] x_def [symmetric] by simp
qed

theorem lerpHsv_hue_witness:
  "(length (cells hsv_example 0) = 3 \<and>
    0 \<le> get hsv_example 1 0 \<and> get hsv_example 1 0 < 360 \<and>
    0 \<le> get hsv_example 2 0 \<and> get hsv_example 2 0 < 360 \<and>
    (0::real) \<le> 1 / 2 \<and> (1 / 2 :: real) \<le> 1 \<and>
    length (cells hsv_example 1) = 3 \<and> length (cells hsv_example 2) = 3) \<and>
   hue_delta 350 10 = 20 \<and>
   result (lerpHsv 0 1 2 (1 / 2) hsv_example) ! 0 = 0 \<and>
   result (lerpHsv 0 1 2 (1 / 2) hsv_example) ! 0 < 360"
proof -
  have hyp: "length (cells hsv_example 0) = 3"
    "0 \<le> get hsv_example 1 0" "get hsv_example 1 0 < 360"
    "0 \<le> get hsv_example 2 0" "get hsv_example 2 0 < 360"
    "(0::real) \<le> 1 / 2" "(1 / 2 :: real) \<le> 1"
    "length (cells hsv_example 1) = 3" "length (cells hsv_example 2) = 3"
    by (simp_all add: hsv_example_def heap_of_def get_def)
  have g: "get hsv_example 1 0 = 350" "get hsv_example 2 0 = 10"
    by (simp_all add: hsv_example_def heap_of_def get_def)
  have d: "hue_delta 350 10 = 20" by (simp add: hue_delta_def)
  have "js_rem (350 + 20 * (1 / 2) + 360) 360 = 0" by (simp add: js_rem_def)
  then show ?thesis
    using hyp d lerpHsv_hue [OF hyp, unfolded g d] by simp
qed

section \<open>Matrix multiplication order\<close>

lemma len16D:
  "length xs = 16 \<Longrightarrow>
   \<exists>x0 x1 x2 x3 x4 x5 x6 x7 x8 x9 x10 x11 x12 x13 x14 x15.
     xs = [x0, x1, x2, x3, x4, x5, x6, x7, x8, x9, x10, x11, x12, x13, x14, x15]"
  by (auto simp: length_Suc_conv numeral_eq_Suc)

lemma len16E:
  assumes "length xs = 16"
  obtains x0 x1 x2 x3 x4 x5 x6 x7 x8 x9 x10 x11 x12 x13 x14 x15 where
    "xs = [x0, x1, x2, x3, x4, x5, x6, x7, x8, x9, x10, x11, x12, x13, x14, x15]"
  using len16D [OF assms] that by (elim exE) 

text \<open>
  \<^verbatim>\<open>mat4Mul(out, a, b)\<close> writes \<open>a \<times> b\<close> into \<^verbatim>\<open>out\<close>, whatever is aliased.
\<close>

lemma mat4Mul_eq:
  assumes "length (cells h out) = 16" "length (cells h a) = 16" "length (cells h b) = 16"
  shows "mat4Mul out a b h =
     (out, Heap ((cells h)(out := mat4_prod (cells h a) (cells h b))) (next_ref h))"
proof -
  obtain a0 a1 a2 a3 a4 a5 a6 a7 a8 a9 a10 a11 a12 a13 a14 a15 where
    a: "cells h a = [a0, a1, a2, a3, a4, a5, a6, a7, a8, a9, a10, a11, a12, a13, a14, a15]"
    by (rule len16E [OF assms(2)])
  obtain b0 b1 b2 b3 b4 b5 b6 b7 b8 b9 b10 b11 b12 b13 b14 b15 where
    b: "cells h b = [b0, b1, b2, b3, b4, b5, b6, b7, b8, b9, b10, b11, b12, b13, b14, b15]"
    by (rule len16E [OF assms(3)])
  obtain c0 c1 c2 c3 c4 c5 c6 c7 c8 c9 c10 c11 c12 c13 c14 c15 where
    c: "cells h out = [c0, c1, c2, c3, c4, c5, c6, c7, c8, c9, c10, c11, c12, c13, c14, c15]"
    by (rule len16E [OF assms(1)])
  show ?thesis
    using a b c
    by (cases "out = a"; cases "out = b")
       (simp_all add: mat4Mul_def mat4_prod_def mat4_entry_def get_def put_def Let_def mult.commute
          cong: heap_cong)
qed


text \<open>
  C4, as stated, fails. With \<open>a\<close> the translation by \<open>(1, 2, 3)\<close> and \<open>b\<close> the scaling
  by 2, \<^verbatim>\<open>mat4Mul(out, a, b)\<close> is the matrix that scales first and then translates
  (the repository's test expects exactly this array): it is not \<open>b \<times> a\<close>, and
  \<^verbatim>\<open>mat4TransformVec3\<close> maps \<open>(1, 0, 0)\<close> to \<open>(3, 2, 3)\<close> through it, where applying
  \<open>a\<close> and then \<open>b\<close> gives \<open>(4, 4, 6)\<close>.
\<close>

theorem mat4Mul_order_counterexample:
  "result (mat4FromTranslation 6 mat4_example) = cells mat4_example 1 \<and>
   result (mat4FromScale 7 mat4_example) = cells mat4_example 2 \<and>
   result (mat4Mul 0 1 2 mat4_example) = [2, 0, 0, 0, 0, 2, 0, 0, 0, 0, 2, 0, 1, 2, 3, 1] \<and>
   mat4_prod (cells mat4_example 2) (cells mat4_example 1) =
     [2, 0, 0, 0, 0, 2, 0, 0, 0, 0, 2, 0, 2, 4, 6, 1] \<and>
   result (mat4Mul 0 1 2 mat4_example) \<noteq> mat4_prod (cells mat4_example 2) (cells mat4_example 1) \<and>
   result (mat4TransformVec3 4 0 3 (snd (mat4Mul 0 1 2 mat4_example))) = [3, 2, 3] \<and>
   result (mat4TransformVec3 5 2 4 (snd (mat4TransformVec3 4 1 3 mat4_example))) = [4, 4, 6]"
  by (simp add: mat4_example_def heap_of_def mat4Mul_def mat4_prod_def mat4_entry_def
      mat4TransformVec3_def mat4FromTranslation_def mat4FromScale_def
      result_def alloc_def get_def put_def Let_def cong: heap_cong)

text \<open>
  C4, amended. For all 4x4 matrices \<open>a\<close> and \<open>b\<close>, \<^verbatim>\<open>mat4Mul(out, a, b)\<close> writes and
  returns \<open>a \<times> b\<close> in column-vector notation: the matrix that applies \<open>b\<close>'s
  transform first and then \<open>a\<close>'s.
\<close>

theorem mat4Mul_is_a_times_b:
  assumes "length (cells h out) = 16" and "length (cells h a) = 16" and "length (cells h b) = 16"
  shows "fst (mat4Mul out a b h) = out \<and>
         result (mat4Mul out a b h) = mat4_prod (cells h a) (cells h b) \<and>
         (\<forall>x. mat4_apply (result (mat4Mul out a b h)) x =
              mat4_apply (cells h a) (mat4_apply (cells h b) x))"
proof -
  have r: "result (mat4Mul out a b h) = mat4_prod (cells h a) (cells h b)"
    by (simp add: mat4Mul_eq [OF assms] result_def)
  have "mat4_apply (mat4_prod A B) x = mat4_apply A (mat4_apply B x)" for A B x
    by (simp add: mat4_apply_def mat4_prod_def mat4_entry_def numeral_2_eq_2 [symmetric])
       (simp add: algebra_simps)
  with r show ?thesis
    by (simp add: mat4Mul_eq [OF assms])
qed

theorem mat4Mul_is_a_times_b_witness:
  "(length (cells mat4_example 0) = 16 \<and> length (cells mat4_example 1) = 16 \<and>
    length (cells mat4_example 2) = 16) \<and>
   result (mat4Mul 0 1 2 mat4_example) = mat4_prod (cells mat4_example 1) (cells mat4_example 2) \<and>
   mat4_prod (cells mat4_example 1) (cells mat4_example 2) =
     [2, 0, 0, 0, 0, 2, 0, 0, 0, 0, 2, 0, 1, 2, 3, 1] \<and>
   mat4_apply (result (mat4Mul 0 1 2 mat4_example)) [1, 0, 0, 1] =
     mat4_apply (cells mat4_example 1) (mat4_apply (cells mat4_example 2) [1, 0, 0, 1]) \<and>
   mat4_apply (cells mat4_example 1) (mat4_apply (cells mat4_example 2) [1, 0, 0, 1]) = [3, 2, 3, 1]"
proof -
  have len: "length (cells mat4_example 0) = 16" "length (cells mat4_example 1) = 16"
    "length (cells mat4_example 2) = 16"
    by (simp_all add: mat4_example_def heap_of_def)
  have v: "mat4_prod (cells mat4_example 1) (cells mat4_example 2) =
      [2, 0, 0, 0, 0, 2, 0, 0, 0, 0, 2, 0, 1, 2, 3, 1]"
    "mat4_apply (cells mat4_example 1) (mat4_apply (cells mat4_example 2) [1, 0, 0, 1]) = [3, 2, 3, 1]"
    by (simp_all add: mat4_example_def heap_of_def mat4_prod_def mat4_entry_def mat4_apply_def)
  show ?thesis
    using len v mat4Mul_is_a_times_b [OF len] by blast
qed

section \<open>Global and local rotation\<close>

lemma len9D:
  "length xs = 9 \<Longrightarrow> \<exists>x0 x1 x2 x3 x4 x5 x6 x7 x8. xs = [x0, x1, x2, x3, x4, x5, x6, x7, x8]"
  by (auto simp: length_Suc_conv numeral_eq_Suc)

lemma len9E:
  assumes "length xs = 9"
  obtains x0 x1 x2 x3 x4 x5 x6 x7 x8 where "xs = [x0, x1, x2, x3, x4, x5, x6, x7, x8]"
  using len9D [OF assms] that by (elim exE)

text \<open>\<^verbatim>\<open>basisMul\<close> reads both operands before it writes, so it may run in place.\<close>

lemma basisMul_eq:
  assumes "length (cells h out) = 9" "length (cells h a) = 9" "length (cells h b) = 9"
  shows "basisMul out a b h =
     (out, Heap ((cells h)(out := basis_prod (cells h a) (cells h b))) (next_ref h))"
proof -
  obtain a0 a1 a2 a3 a4 a5 a6 a7 a8 where
    a: "cells h a = [a0, a1, a2, a3, a4, a5, a6, a7, a8]"
    by (rule len9E [OF assms(2)])
  obtain b0 b1 b2 b3 b4 b5 b6 b7 b8 where
    b: "cells h b = [b0, b1, b2, b3, b4, b5, b6, b7, b8]"
    by (rule len9E [OF assms(3)])
  obtain c0 c1 c2 c3 c4 c5 c6 c7 c8 where
    c: "cells h out = [c0, c1, c2, c3, c4, c5, c6, c7, c8]"
    by (rule len9E [OF assms(1)])
  show ?thesis
    using a b c
    by (cases "out = a"; cases "out = b")
       (simp_all add: basisMul_def basis_prod_def basis_entry_def get_def put_def Let_def
          cong: heap_cong)
qed

lemma length_axis_angle_basis: "length (axis_angle_basis v angle) = 9"
  by (simp add: axis_angle_basis_def basisFromAxisAngle_def vec3Normalize_def result_def
      alloc_def get_def put_def heap_of_def Let_def cong: heap_cong)

lemma basisFromAxisAngle_alloc:
  assumes "axis < next_ref h"
  shows "basisFromAxisAngle axis angle h =
     (Suc (next_ref h),
      Heap ((cells h)(next_ref h := vec3_normalize (cells h axis),
                      Suc (next_ref h) := axis_angle_basis (cells h axis) angle))
           (Suc (Suc (next_ref h))))"
proof -
  have ne: "axis \<noteq> next_ref h" using assms by simp
  show ?thesis
    by (simp add: ne basisFromAxisAngle_def vec3Normalize_def axis_angle_basis_def vec3_normalize_def
        result_def alloc_def get_def put_def heap_of_def Let_def cong: heap_cong)
qed


lemma basisRotate_eq:
  assumes "out < next_ref h" "b < next_ref h" "axis < next_ref h"
    and "length (cells h out) = 9" "length (cells h b) = 9"
  shows "basisRotate out b axis angle h =
     (out,
      Heap ((cells h)(next_ref h := vec3_normalize (cells h axis),
                      Suc (next_ref h) := axis_angle_basis (cells h axis) angle,
                      out := basis_prod (axis_angle_basis (cells h axis) angle) (cells h b)))
           (Suc (Suc (next_ref h))))"
proof -
  have ne: "out \<noteq> next_ref h" "out \<noteq> Suc (next_ref h)" "b \<noteq> next_ref h" "b \<noteq> Suc (next_ref h)"
    using assms(1,2) by simp_all
  show ?thesis
    using assms(4,5)
    by (simp add: basisRotate_def basisFromAxisAngle_alloc [OF assms(3)] basisMul_eq ne
        length_axis_angle_basis)
qed

lemma basisRotateLocal_eq:
  assumes "out < next_ref h" "b < next_ref h" "axis < next_ref h"
    and "length (cells h out) = 9" "length (cells h b) = 9"
  shows "basisRotateLocal out b axis angle h =
     (out,
      Heap ((cells h)(next_ref h := vec3_normalize (cells h axis),
                      Suc (next_ref h) := axis_angle_basis (cells h axis) angle,
                      out := basis_prod (cells h b) (axis_angle_basis (cells h axis) angle)))
           (Suc (Suc (next_ref h))))"
proof -
  have ne: "out \<noteq> next_ref h" "out \<noteq> Suc (next_ref h)" "b \<noteq> next_ref h" "b \<noteq> Suc (next_ref h)"
    using assms(1,2) by simp_all
  show ?thesis
    using assms(4,5)
    by (simp add: basisRotateLocal_def basisFromAxisAngle_alloc [OF assms(3)] basisMul_eq ne
        length_axis_angle_basis)
qed

lemma basis_prod_identity:
  assumes "length R = 9"
  shows "basis_prod R [1, 0, 0, 0, 1, 0, 0, 0, 1] = R"
    and "basis_prod [1, 0, 0, 0, 1, 0, 0, 0, 1] R = R"
proof -
  obtain r0 r1 r2 r3 r4 r5 r6 r7 r8 where "R = [r0, r1, r2, r3, r4, r5, r6, r7, r8]"
    by (rule len9E [OF assms])
  then show "basis_prod R [1, 0, 0, 0, 1, 0, 0, 0, 1] = R"
    and "basis_prod [1, 0, 0, 0, 1, 0, 0, 0, 1] R = R"
    by (simp_all add: basis_prod_def basis_entry_def)
qed

lemma quarter_turn_about_z: "axis_angle_basis [0, 0, 1] (pi / 2) = [0, 1, 0, - 1, 0, 0, 0, 0, 1]"
  by (simp add: axis_angle_basis_def basisFromAxisAngle_def vec3Normalize_def result_def
      alloc_def get_def put_def heap_of_def Let_def cong: heap_cong)

text \<open>
  C3. \<^verbatim>\<open>basisRotate(out, b, axis, angle)\<close> is \<^verbatim>\<open>basisMul(out, R, b)\<close> and
  \<^verbatim>\<open>basisRotateLocal(out, b, axis, angle)\<close> is \<^verbatim>\<open>basisMul(out, b, R)\<close>, where \<open>R\<close> is
  the basis \<^verbatim>\<open>basisFromAxisAngle\<close> builds: the results are the matrix products
  \<open>R \<times> b\<close> and \<open>b \<times> R\<close>. On the identity basis the two agree; on the quarter turn
  about X, rotated by a quarter turn about Z, they differ.
\<close>

theorem rotate_global_and_local:
  assumes "out < next_ref h" and "b < next_ref h" and "axis < next_ref h"
    and "length (cells h out) = 9" and "length (cells h b) = 9"
    and "length (cells h axis) = 3"
  shows "basisRotate out b axis angle h =
           basisMul out (fst (basisFromAxisAngle axis angle h)) b
             (snd (basisFromAxisAngle axis angle h)) \<and>
         basisRotateLocal out b axis angle h =
           basisMul out b (fst (basisFromAxisAngle axis angle h))
             (snd (basisFromAxisAngle axis angle h)) \<and>
         result (basisRotate out b axis angle h) =
           basis_prod (axis_angle_basis (cells h axis) angle) (cells h b) \<and>
         result (basisRotateLocal out b axis angle h) =
           basis_prod (cells h b) (axis_angle_basis (cells h axis) angle) \<and>
         (cells h b = [1, 0, 0, 0, 1, 0, 0, 0, 1] \<longrightarrow>
            result (basisRotate out b axis angle h) = result (basisRotateLocal out b axis angle h)) \<and>
         result (basisRotate 0 1 2 (pi / 2) rot_example) \<noteq>
           result (basisRotateLocal 3 1 2 (pi / 2) rot_example)"
proof -
  have wf: "0 < next_ref rot_example" "1 < next_ref rot_example" "2 < next_ref rot_example"
    "3 < next_ref rot_example"
    "length (cells rot_example 0) = 9" "length (cells rot_example 1) = 9"
    "length (cells rot_example 3) = 9"
    by (simp_all add: rot_example_def heap_of_def)
  have c: "cells rot_example 1 = [1, 0, 0, 0, 0, 1, 0, - 1, 0]" "cells rot_example 2 = [0, 0, 1]"
    by (simp_all add: rot_example_def heap_of_def)
  have "result (basisRotate 0 1 2 (pi / 2) rot_example) = [0, 0, 1, - 1, 0, 0, 0, - 1, 0]"
    using basisRotate_eq [OF wf(1,2,3,5,6), of "pi / 2"] c
    by (simp add: result_def quarter_turn_about_z basis_prod_def basis_entry_def)
  moreover have "result (basisRotateLocal 3 1 2 (pi / 2) rot_example) = [0, 1, 0, 0, 0, 1, 1, 0, 0]"
    using basisRotateLocal_eq [OF wf(4,2,3,7,6), of "pi / 2"] c
    by (simp add: result_def quarter_turn_about_z basis_prod_def basis_entry_def)
  ultimately have differ: "result (basisRotate 0 1 2 (pi / 2) rot_example) \<noteq>
      result (basisRotateLocal 3 1 2 (pi / 2) rot_example)"
    by simp
  have g: "result (basisRotate out b axis angle h) =
      basis_prod (axis_angle_basis (cells h axis) angle) (cells h b)"
    by (simp add: basisRotate_eq [OF assms(1-5)] result_def)
  have l: "result (basisRotateLocal out b axis angle h) =
      basis_prod (cells h b) (axis_angle_basis (cells h axis) angle)"
    by (simp add: basisRotateLocal_eq [OF assms(1-5)] result_def)
  have d: "basisRotate out b axis angle h =
      basisMul out (fst (basisFromAxisAngle axis angle h)) b (snd (basisFromAxisAngle axis angle h))"
    "basisRotateLocal out b axis angle h =
      basisMul out b (fst (basisFromAxisAngle axis angle h)) (snd (basisFromAxisAngle axis angle h))"
    by (simp_all add: basisRotate_def basisRotateLocal_def split_def Let_def)
  have i: "cells h b = [1, 0, 0, 0, 1, 0, 0, 0, 1] \<longrightarrow>
      result (basisRotate out b axis angle h) = result (basisRotateLocal out b axis angle h)"
    by (simp add: g l basis_prod_identity length_axis_angle_basis)
  show ?thesis
    using differ g l d i by blast
qed

theorem rotate_global_and_local_witness:
  "(3 < next_ref rot_example \<and> 4 < next_ref rot_example \<and> 2 < next_ref rot_example \<and>
    length (cells rot_example 3) = 9 \<and> length (cells rot_example 4) = 9 \<and>
    length (cells rot_example 2) = 3) \<and>
   cells rot_example 4 = [1, 0, 0, 0, 1, 0, 0, 0, 1] \<and>
   result (basisRotate 3 4 2 (pi / 2) rot_example) = [0, 1, 0, - 1, 0, 0, 0, 0, 1] \<and>
   result (basisRotateLocal 3 4 2 (pi / 2) rot_example) = [0, 1, 0, - 1, 0, 0, 0, 0, 1]"
proof -
  have wf: "3 < next_ref rot_example" "4 < next_ref rot_example" "2 < next_ref rot_example"
    "length (cells rot_example 3) = 9" "length (cells rot_example 4) = 9"
    "length (cells rot_example 2) = 3"
    by (simp_all add: rot_example_def heap_of_def)
  have c: "cells rot_example 4 = [1, 0, 0, 0, 1, 0, 0, 0, 1]" "cells rot_example 2 = [0, 0, 1]"
    by (simp_all add: rot_example_def heap_of_def)
  have p: "basis_prod (axis_angle_basis [0, 0, 1] (pi / 2)) [1, 0, 0, 0, 1, 0, 0, 0, 1] =
      [0, 1, 0, - 1, 0, 0, 0, 0, 1]"
    by (simp add: basis_prod_identity length_axis_angle_basis quarter_turn_about_z)
  note t = rotate_global_and_local [OF wf, of "pi / 2", unfolded c p]
  from t have g: "result (basisRotate 3 4 2 (pi / 2) rot_example) = [0, 1, 0, - 1, 0, 0, 0, 0, 1]"
    by blast
  from t have "result (basisRotate 3 4 2 (pi / 2) rot_example) =
      result (basisRotateLocal 3 4 2 (pi / 2) rot_example)"
    by blast
  with g have "result (basisRotateLocal 3 4 2 (pi / 2) rot_example) = [0, 1, 0, - 1, 0, 0, 0, 0, 1]"
    by simp
  with g wf c show ?thesis by blast
qed

section \<open>Inverses and singular matrices\<close>

lemma basisIdentity_eq:
  assumes "length (cells h out) = 9"
  shows "basisIdentity out h = (out, Heap ((cells h)(out := identity3)) (next_ref h))"
proof -
  obtain c0 c1 c2 c3 c4 c5 c6 c7 c8 where "cells h out = [c0, c1, c2, c3, c4, c5, c6, c7, c8]"
    by (rule len9E [OF assms])
  then show ?thesis
    by (simp add: basisIdentity_def identity3_def put_def Let_def cong: heap_cong)
qed

lemma basisInverse_singular:
  assumes "length (cells h out) = 9" "\<bar>basisDeterminant m h\<bar> < EPSILON"
  shows "basisInverse out m h = (out, Heap ((cells h)(out := identity3)) (next_ref h))"
  using assms by (simp add: basisInverse_def basisIdentity_eq)

lemma basisInverse_regular:
  assumes "cells h out = [c0, c1, c2, c3, c4, c5, c6, c7, c8]"
    and "cells h m = [b0, b1, b2, b3, b4, b5, b6, b7, b8]"
    and "out \<noteq> m" and "\<not> \<bar>basisDeterminant m h\<bar> < EPSILON"
  shows "basisInverse out m h =
     (out, Heap ((cells h)(out :=
        [(b4 * b8 - b5 * b7) * (1 / basisDeterminant m h),
         (b2 * b7 - b1 * b8) * (1 / basisDeterminant m h),
         (b1 * b5 - b2 * b4) * (1 / basisDeterminant m h),
         (b5 * b6 - b3 * b8) * (1 / basisDeterminant m h),
         (b0 * b8 - b2 * b6) * (1 / basisDeterminant m h),
         (b2 * b3 - b0 * b5) * (1 / basisDeterminant m h),
         (b3 * b7 - b4 * b6) * (1 / basisDeterminant m h),
         (b1 * b6 - b0 * b7) * (1 / basisDeterminant m h),
         (b0 * b4 - b1 * b3) * (1 / basisDeterminant m h)])) (next_ref h))"
proof -
  have ne: "m \<noteq> out" using assms(3) by simp
  show ?thesis
    using assms(4)
    by (simp add: basisInverse_def assms(1,2) ne get_def put_def Let_def cong: heap_cong)
qed


text \<open>
  The adjugate divided by the determinant is a two-sided inverse. Both products are
  the identity, so the statement does not depend on reading the nine numbers row by
  row (\<^verbatim>\<open>basis\<close>) or column by column (\<^verbatim>\<open>mat3\<close>).
\<close>

lemma adjugate_inverse:
  fixes b0 :: real
  assumes k: "k * (b0 * (b4 * b8 - b5 * b7) - b1 * (b3 * b8 - b5 * b6) + b2 * (b3 * b7 - b4 * b6)) = 1"
    and x: "x0 = (b4 * b8 - b5 * b7) * k" "x1 = (b2 * b7 - b1 * b8) * k" "x2 = (b1 * b5 - b2 * b4) * k"
      "x3 = (b5 * b6 - b3 * b8) * k" "x4 = (b0 * b8 - b2 * b6) * k" "x5 = (b2 * b3 - b0 * b5) * k"
      "x6 = (b3 * b7 - b4 * b6) * k" "x7 = (b1 * b6 - b0 * b7) * k" "x8 = (b0 * b4 - b1 * b3) * k"
  shows "basis_prod [b0, b1, b2, b3, b4, b5, b6, b7, b8] [x0, x1, x2, x3, x4, x5, x6, x7, x8] = identity3"
    and "basis_prod [x0, x1, x2, x3, x4, x5, x6, x7, x8] [b0, b1, b2, b3, b4, b5, b6, b7, b8] = identity3"
proof -
  have d: "b0 * x0 + b1 * x3 + b2 * x6 = 1" "b3 * x1 + b4 * x4 + b5 * x7 = 1"
    "b6 * x2 + b7 * x5 + b8 * x8 = 1"
    "x0 * b0 + x1 * b3 + x2 * b6 = 1" "x3 * b1 + x4 * b4 + x5 * b7 = 1"
    "x6 * b2 + x7 * b5 + x8 * b8 = 1"
    using k unfolding x by algebra+
  have z: "b0 * x1 + b1 * x4 + b2 * x7 = 0" "b0 * x2 + b1 * x5 + b2 * x8 = 0"
    "b3 * x0 + b4 * x3 + b5 * x6 = 0" "b3 * x2 + b4 * x5 + b5 * x8 = 0"
    "b6 * x0 + b7 * x3 + b8 * x6 = 0" "b6 * x1 + b7 * x4 + b8 * x7 = 0"
    "x0 * b1 + x1 * b4 + x2 * b7 = 0" "x0 * b2 + x1 * b5 + x2 * b8 = 0"
    "x3 * b0 + x4 * b3 + x5 * b6 = 0" "x3 * b2 + x4 * b5 + x5 * b8 = 0"
    "x6 * b0 + x7 * b3 + x8 * b6 = 0" "x6 * b1 + x7 * b4 + x8 * b7 = 0"
    unfolding x by algebra+
  show "basis_prod [b0, b1, b2, b3, b4, b5, b6, b7, b8] [x0, x1, x2, x3, x4, x5, x6, x7, x8] = identity3"
    by (simp add: basis_prod_def basis_entry_def identity3_def) (simp add: d z)
  show "basis_prod [x0, x1, x2, x3, x4, x5, x6, x7, x8] [b0, b1, b2, b3, b4, b5, b6, b7, b8] = identity3"
    by (simp add: basis_prod_def basis_entry_def identity3_def) (simp add: d z)
qed

lemma basisInverse_inverts:
  assumes "length (cells h out) = 9" "length (cells h m) = 9"
    and "out \<noteq> m" and "\<not> \<bar>basisDeterminant m h\<bar> < EPSILON"
  shows "fst (basisInverse out m h) = out"
    and "basis_prod (cells h m) (result (basisInverse out m h)) = identity3"
    and "basis_prod (result (basisInverse out m h)) (cells h m) = identity3"
proof -
  obtain c0 c1 c2 c3 c4 c5 c6 c7 c8 where c: "cells h out = [c0, c1, c2, c3, c4, c5, c6, c7, c8]"
    by (rule len9E [OF assms(1)])
  obtain b0 b1 b2 b3 b4 b5 b6 b7 b8 where b: "cells h m = [b0, b1, b2, b3, b4, b5, b6, b7, b8]"
    by (rule len9E [OF assms(2)])
  define k where "k = 1 / basisDeterminant m h"
  have "basisDeterminant m h \<noteq> 0"
    using assms(4) by (auto simp: EPSILON_def)
  then have "k * basisDeterminant m h = 1" by (simp add: k_def)
  then have k: "k * (b0 * (b4 * b8 - b5 * b7) - b1 * (b3 * b8 - b5 * b6) + b2 * (b3 * b7 - b4 * b6)) = 1"
    by (simp add: basisDeterminant_def get_def b)
  note e = basisInverse_regular [OF c b assms(3,4), folded k_def]
  show "fst (basisInverse out m h) = out" by (simp add: e)
  have r: "result (basisInverse out m h) =
      [(b4 * b8 - b5 * b7) * k, (b2 * b7 - b1 * b8) * k, (b1 * b5 - b2 * b4) * k,
       (b5 * b6 - b3 * b8) * k, (b0 * b8 - b2 * b6) * k, (b2 * b3 - b0 * b5) * k,
       (b3 * b7 - b4 * b6) * k, (b1 * b6 - b0 * b7) * k, (b0 * b4 - b1 * b3) * k]"
    by (simp add: e result_def)
  show "basis_prod (cells h m) (result (basisInverse out m h)) = identity3"
    unfolding r b by (rule adjugate_inverse(1) [OF k]) simp_all
  show "basis_prod (result (basisInverse out m h)) (cells h m) = identity3"
    unfolding r b by (rule adjugate_inverse(2) [OF k]) simp_all
qed

lemma mat3Invert_singular:
  assumes "\<bar>mat3Determinant m h\<bar> < EPSILON"
  shows "mat3Invert out m h = (None, h)"
proof -
  have "get h m 0 * (get h m 8 * get h m 4 - get h m 5 * get h m 7) +
        get h m 1 * (- get h m 8 * get h m 3 + get h m 5 * get h m 6) +
        get h m 2 * (get h m 7 * get h m 3 - get h m 4 * get h m 6) = mat3Determinant m h"
    by (simp add: mat3Determinant_def Let_def algebra_simps)
  then show ?thesis
    using assms by (simp add: mat3Invert_def Let_def cong: heap_cong)
qed

lemma mat3Invert_inverts:
  assumes "length (cells h out) = 9" "length (cells h m) = 9"
    and "\<not> \<bar>mat3Determinant m h\<bar> < EPSILON"
  shows "fst (mat3Invert out m h) = Some out"
    and "basis_prod (cells h m) (cells (snd (mat3Invert out m h)) out) = identity3"
    and "basis_prod (cells (snd (mat3Invert out m h)) out) (cells h m) = identity3"
proof -
  obtain c0 c1 c2 c3 c4 c5 c6 c7 c8 where c: "cells h out = [c0, c1, c2, c3, c4, c5, c6, c7, c8]"
    by (rule len9E [OF assms(1)])
  obtain b0 b1 b2 b3 b4 b5 b6 b7 b8 where b: "cells h m = [b0, b1, b2, b3, b4, b5, b6, b7, b8]"
    by (rule len9E [OF assms(2)])
  define D where "D = b0 * (b8 * b4 - b5 * b7) + b1 * (- b8 * b3 + b5 * b6) + b2 * (b7 * b3 - b4 * b6)"
  define k where "k = 1 / D"
  have D: "D = mat3Determinant m h"
    by (simp add: D_def mat3Determinant_def get_def b Let_def algebra_simps)
  then have "D \<noteq> 0" using assms(3) by (auto simp: EPSILON_def)
  then have "k * D = 1" by (simp add: k_def)
  then have k: "k * (b0 * (b4 * b8 - b5 * b7) - b1 * (b3 * b8 - b5 * b6) + b2 * (b3 * b7 - b4 * b6)) = 1"
    unfolding D_def by algebra
  have nd: "\<not> \<bar>D\<bar> < EPSILON" using assms(3) D by simp
  have e: "mat3Invert out m h =
     (Some out, Heap ((cells h)(out :=
        [(b8 * b4 - b5 * b7) * k, (- b8 * b1 + b2 * b7) * k, (b5 * b1 - b2 * b4) * k,
         (- b8 * b3 + b5 * b6) * k, (b8 * b0 - b2 * b6) * k, (- b5 * b0 + b2 * b3) * k,
         (b7 * b3 - b4 * b6) * k, (- b7 * b0 + b1 * b6) * k, (b4 * b0 - b1 * b3) * k])) (next_ref h))"
    using nd b c unfolding D_def k_def D_def
    by (cases "out = m") (simp_all add: mat3Invert_def get_def put_def Let_def cong: heap_cong)
  show "fst (mat3Invert out m h) = Some out" by (simp add: e)
  have r: "cells (snd (mat3Invert out m h)) out =
        [(b8 * b4 - b5 * b7) * k, (- b8 * b1 + b2 * b7) * k, (b5 * b1 - b2 * b4) * k,
         (- b8 * b3 + b5 * b6) * k, (b8 * b0 - b2 * b6) * k, (- b5 * b0 + b2 * b3) * k,
         (b7 * b3 - b4 * b6) * k, (- b7 * b0 + b1 * b6) * k, (b4 * b0 - b1 * b3) * k]"
    by (simp add: e)
  show "basis_prod (cells h m) (cells (snd (mat3Invert out m h)) out) = identity3"
    unfolding r b by (rule adjugate_inverse(1) [OF k]) (simp_all add: algebra_simps)
  show "basis_prod (cells (snd (mat3Invert out m h)) out) (cells h m) = identity3"
    unfolding r b by (rule adjugate_inverse(2) [OF k]) (simp_all add: algebra_simps)
qed


text \<open>
  The two policies, and what holds of the regular case. When the determinant is
  below \<open>EPSILON\<close> in absolute value, \<^verbatim>\<open>basisInverse\<close> writes the identity into
  \<^verbatim>\<open>out\<close> and returns it, while \<^verbatim>\<open>mat3Invert\<close> returns \<^verbatim>\<open>null\<close> and writes nothing.
  Otherwise \<^verbatim>\<open>mat3Invert\<close> returns \<^verbatim>\<open>out\<close> holding the inverse of the input, and so
  does \<^verbatim>\<open>basisInverse\<close> when its output array is not its input.
\<close>

theorem degenerate_inverse_policies:
  assumes "length (cells h out) = 9" and "length (cells h m) = 9"
  shows "(\<bar>basisDeterminant m h\<bar> < EPSILON \<longrightarrow>
            fst (basisInverse out m h) = out \<and> result (basisInverse out m h) = identity3) \<and>
         (\<bar>mat3Determinant m h\<bar> < EPSILON \<longrightarrow> mat3Invert out m h = (None, h)) \<and>
         (\<not> \<bar>basisDeterminant m h\<bar> < EPSILON \<and> out \<noteq> m \<longrightarrow>
            fst (basisInverse out m h) = out \<and>
            basis_prod (cells h m) (result (basisInverse out m h)) = identity3 \<and>
            basis_prod (result (basisInverse out m h)) (cells h m) = identity3) \<and>
         (\<not> \<bar>mat3Determinant m h\<bar> < EPSILON \<longrightarrow>
            fst (mat3Invert out m h) = Some out \<and>
            basis_prod (cells h m) (cells (snd (mat3Invert out m h)) out) = identity3 \<and>
            basis_prod (cells (snd (mat3Invert out m h)) out) (cells h m) = identity3)"
proof (intro conjI impI)
  assume "\<bar>basisDeterminant m h\<bar> < EPSILON"
  then show "fst (basisInverse out m h) = out" "result (basisInverse out m h) = identity3"
    by (simp_all add: basisInverse_singular [OF assms(1)] result_def)
next
  assume "\<bar>mat3Determinant m h\<bar> < EPSILON"
  then show "mat3Invert out m h = (None, h)" by (rule mat3Invert_singular)
next
  assume a: "\<not> \<bar>basisDeterminant m h\<bar> < EPSILON \<and> out \<noteq> m"
  then show "fst (basisInverse out m h) = out"
    "basis_prod (cells h m) (result (basisInverse out m h)) = identity3"
    "basis_prod (result (basisInverse out m h)) (cells h m) = identity3"
    using basisInverse_inverts [OF assms] by simp_all
next
  assume a: "\<not> \<bar>mat3Determinant m h\<bar> < EPSILON"
  then show "fst (mat3Invert out m h) = Some out"
    "basis_prod (cells h m) (cells (snd (mat3Invert out m h)) out) = identity3"
    "basis_prod (cells (snd (mat3Invert out m h)) out) (cells h m) = identity3"
    using mat3Invert_inverts [OF assms] by simp_all
qed

theorem degenerate_inverse_policies_witness:
  "(length (cells inverse_example 0) = 9 \<and> length (cells inverse_example 3) = 9 \<and>
    length (cells inverse_example 2) = 9 \<and>
    \<bar>basisDeterminant 3 inverse_example\<bar> < EPSILON \<and> \<bar>mat3Determinant 3 inverse_example\<bar> < EPSILON \<and>
    \<not> \<bar>basisDeterminant 2 inverse_example\<bar> < EPSILON \<and> \<not> \<bar>mat3Determinant 2 inverse_example\<bar> < EPSILON \<and>
    (0::nat) \<noteq> 2) \<and>
   result (basisInverse 0 3 inverse_example) = identity3 \<and>
   mat3Invert 0 3 inverse_example = (None, inverse_example) \<and>
   basis_prod (cells inverse_example 2) (result (basisInverse 0 2 inverse_example)) = identity3 \<and>
   fst (mat3Invert 0 2 inverse_example) = Some 0 \<and>
   basis_prod (cells inverse_example 2) (cells (snd (mat3Invert 0 2 inverse_example)) 0) = identity3"
proof -
  have len: "length (cells inverse_example 0) = 9" "length (cells inverse_example 3) = 9"
    "length (cells inverse_example 2) = 9"
    by (simp_all add: inverse_example_def heap_of_def)
  have det: "\<bar>basisDeterminant 3 inverse_example\<bar> < EPSILON"
    "\<bar>mat3Determinant 3 inverse_example\<bar> < EPSILON"
    "\<not> \<bar>basisDeterminant 2 inverse_example\<bar> < EPSILON"
    "\<not> \<bar>mat3Determinant 2 inverse_example\<bar> < EPSILON"
    by (simp_all add: inverse_example_def heap_of_def basisDeterminant_def mat3Determinant_def
        get_def EPSILON_def)
  have ne: "(0::nat) \<noteq> 2" by simp
  show ?thesis
    using len det ne
      degenerate_inverse_policies [OF len(1,2)] degenerate_inverse_policies [OF len(1,3)]
    by blast
qed

text \<open>
  C7 does not hold of the code: for a determinant at or above the threshold
  \<^verbatim>\<open>basisInverse\<close> does not always return the inverse. It writes \<^verbatim>\<open>out[0]\<close>,
  \<^verbatim>\<open>out[1]\<close>, ... one after the other from entries of \<^verbatim>\<open>b\<close> read at that moment, so
  in the call \<^verbatim>\<open>basisInverse(b, b)\<close> the later entries are computed from entries
  already overwritten (\<^verbatim>\<open>mat3Invert\<close> copies its input into locals first). For
  \<open>b = [1, 2, 3, 0, 1, 4, 5, 6, 0]\<close>, of determinant 1, a separate output receives
  the inverse \<open>[-24, 18, 5, 20, -15, -4, -5, 4, 1]\<close>, and the call in place returns
  \<open>[-24, 18, 69, 20, -345, 1476, 1845, 33354, 7920]\<close>, which is not an inverse of
  \<open>b\<close>.
\<close>

theorem basisInverse_in_place_not_inverse:
  "basisDeterminant 0 inverse_in_place = 1 \<and>
   result (basisInverse 1 0 inverse_in_place) = [- 24, 18, 5, 20, - 15, - 4, - 5, 4, 1] \<and>
   basis_prod (cells inverse_in_place 0) (result (basisInverse 1 0 inverse_in_place)) = identity3 \<and>
   result (basisInverse 0 0 inverse_in_place) =
     [- 24, 18, 69, 20, - 345, 1476, 1845, 33354, 7920] \<and>
   basis_prod (cells inverse_in_place 0) (result (basisInverse 0 0 inverse_in_place)) \<noteq> identity3"
  by (simp add: inverse_in_place_def heap_of_def basisInverse_def basisDeterminant_def
      basis_prod_def basis_entry_def identity3_def EPSILON_def
      result_def get_def put_def Let_def cong: heap_cong)

section \<open>Orthonormalization\<close>

text \<open>\<^verbatim>\<open>vec3Normalize\<close> and \<^verbatim>\<open>vec3Cross\<close> write to their output array only.\<close>

lemma vec3Normalize_frame:
  "fst (vec3Normalize out v h) = out"
  "next_ref (snd (vec3Normalize out v h)) = next_ref h"
  "p \<noteq> out \<Longrightarrow> cells (snd (vec3Normalize out v h)) p = cells h p"
  by (simp_all add: vec3Normalize_def put_def Let_def cong: heap_cong)

lemma vec3Cross_frame:
  "fst (vec3Cross out a b h) = out"
  "next_ref (snd (vec3Cross out a b h)) = next_ref h"
  "p \<noteq> out \<Longrightarrow> cells (snd (vec3Cross out a b h)) p = cells h p"
  by (simp_all add: vec3Cross_def put_def Let_def cong: heap_cong)

text \<open>
  In \<^verbatim>\<open>basisOrthonormalize\<close> every output argument of these calls is a newly
  allocated array, so in any store where \<^verbatim>\<open>out\<close> and \<^verbatim>\<open>b\<close> are allocated the call
  returns \<^verbatim>\<open>out\<close> with its contents unchanged.
\<close>

lemma basisOrthonormalize_frame:
  assumes "out < next_ref h" "b < next_ref h"
  shows "\<exists>h'. basisOrthonormalize out b h = (out, h') \<and> cells h' out = cells h out"
  by (simp add: neq_above [OF assms(1)] neq_above [OF assms(2)] basisOrthonormalize_def
      Let_def case_prod_beta get_def
      alloc_simps vec3Normalize_frame vec3Cross_frame cong: heap_cong)

text \<open>
  C2 does not hold of the code. \<^verbatim>\<open>basisOrthonormalize\<close> hands fresh array literals
  to \<^verbatim>\<open>vec3Normalize\<close> and \<^verbatim>\<open>vec3Cross\<close> as their outputs, so the normalized axes
  are written into temporaries and \<^verbatim>\<open>out\<close> is returned as it was. With a zeroed
  \<^verbatim>\<open>out\<close> and the skewed, non-degenerate basis \<open>[2, 0, 0, 1, 1, 0, 0, 0, 1]\<close> the
  result is all zeros; orthonormalizing that basis in place leaves it unchanged,
  with an X axis of length 2 and \<open>X \<cdot> Y = 2\<close>.
\<close>

theorem basisOrthonormalize_returns_out_unchanged:
  "result (basisOrthonormalize 0 1 skewed) = [0, 0, 0, 0, 0, 0, 0, 0, 0] \<and>
   result (basisOrthonormalize 1 1 skewed) = [2, 0, 0, 1, 1, 0, 0, 0, 1]"
  by (simp add: skewed_def heap_of_def basisOrthonormalize_def vec3Normalize_def vec3Dot_def
      vec3Cross_def result_def alloc_def get_def put_def Let_def cong: heap_cong)

section \<open>Output aliased to an input\<close>

text \<open>
  \<^verbatim>\<open>basisTranspose\<close> has a branch of its own for \<^verbatim>\<open>out === b\<close>: in place or not, the
  output receives the transpose of \<^verbatim>\<open>b\<close>.
\<close>

lemma basisTranspose_eq:
  assumes "length (cells h out) = 9" "length (cells h b) = 9"
  shows "basisTranspose out b h =
     (out, Heap ((cells h)(out :=
        [get h b 0, get h b 3, get h b 6,
         get h b 1, get h b 4, get h b 7,
         get h b 2, get h b 5, get h b 8])) (next_ref h))"
proof -
  obtain b0 b1 b2 b3 b4 b5 b6 b7 b8 where
    b: "cells h b = [b0, b1, b2, b3, b4, b5, b6, b7, b8]"
    by (rule len9E [OF assms(2)])
  obtain c0 c1 c2 c3 c4 c5 c6 c7 c8 where
    c: "cells h out = [c0, c1, c2, c3, c4, c5, c6, c7, c8]"
    by (rule len9E [OF assms(1)])
  show ?thesis
    using b c
    by (cases "out = b")
       (simp_all add: basisTranspose_def get_def put_def Let_def cong: heap_cong)
qed

text \<open>
  C8 does not hold of the code. \<^verbatim>\<open>quatSlerp\<close> stores \<open>b\<close> (or \<open>-b\<close>) in \<^verbatim>\<open>out\<close> before
  it reads \<^verbatim>\<open>a\<close>, so with \<^verbatim>\<open>out\<close> aliased to \<^verbatim>\<open>a\<close> the first operand is lost. For
  \<open>a = (0, 0, 0, 1)\<close>, \<open>b = (1, 0, 0, 0)\<close> and \<open>t = 0\<close> a separate output receives \<open>a\<close>,
  as it should, and the aliased call returns \<open>b\<close>.
\<close>

theorem quatSlerp_aliased_differs:
  "result (quatSlerp 0 1 2 0 half_turn) = [0, 0, 0, 1] \<and>
   result (quatSlerp 1 1 2 0 half_turn) = [1, 0, 0, 0]"
  by (simp add: half_turn_def heap_of_def quatSlerp_def quatDot_def
      result_def get_def put_def Let_def cong: heap_cong)

section \<open>Spherical interpolation of quaternions\<close>

lemma quat_slerp_eq:
  "quat_slerp [a0, a1, a2, a3] [b0, b1, b2, b3] t =
     (let d0 = a0 * b0 + a1 * b1 + a2 * b2 + a3 * b3;
          d = (if d0 < 0 then - d0 else d0);
          c0 = (if d0 < 0 then - b0 else b0); c1 = (if d0 < 0 then - b1 else b1);
          c2 = (if d0 < 0 then - b2 else b2); c3 = (if d0 < 0 then - b3 else b3)
      in if d > 9995 / 10000 then
           (let q0 = a0 + t * (c0 - a0); q1 = a1 + t * (c1 - a1);
                q2 = a2 + t * (c2 - a2); q3 = a3 + t * (c3 - a3);
                len = sqrt (q0 * q0 + q1 * q1 + q2 * q2 + q3 * q3)
            in if len > EPSILON then [q0 / len, q1 / len, q2 / len, q3 / len] else [q0, q1, q2, q3])
         else
           (let theta0 = arccos \<bar>d\<bar>;
                s0 = cos (theta0 * t) - d * sin (theta0 * t) / sin theta0;
                s1 = sin (theta0 * t) / sin theta0
            in [s0 * a0 + s1 * c0, s0 * a1 + s1 * c1, s0 * a2 + s1 * c2, s0 * a3 + s1 * c3]))"
  by (simp add: quat_slerp_def quatSlerp_def quatDot_def result_def put_def get_def heap_of_def Let_def
      cong: heap_cong)

text \<open>
  With an output array other than \<^verbatim>\<open>a\<close> (it may be \<^verbatim>\<open>b\<close>), \<^verbatim>\<open>quatSlerp\<close> writes
  into \<^verbatim>\<open>out\<close> a value that depends on the contents of \<^verbatim>\<open>a\<close> and \<^verbatim>\<open>b\<close> only.
\<close>

lemma quatSlerp_fresh:
  assumes "out \<noteq> a" "length (cells h out) = 4"
  shows "quatSlerp out a b t h =
     (out, Heap ((cells h)(out := quat_slerp (cells h a) (cells h b) t)) (next_ref h))"
proof -
  obtain c0 c1 c2 c3 where c: "cells h out = [c0, c1, c2, c3]"
    using assms(2) len4D by blast
  have ne: "a \<noteq> out" using assms(1) by simp
  show ?thesis
    using c ne
    by (cases "out = b")
       (simp_all add: quat_slerp_def quatSlerp_def quatDot_def result_def put_def get_def
          heap_of_def Let_def cong: heap_cong)
qed

lemma quatLerp_eq:
  assumes "length (cells h out) = 4"
  shows "quatLerp out a b t h =
     (out, Heap ((cells h)(out := quat_lerp (cells h a) (cells h b) t)) (next_ref h))"
proof -
  obtain c0 c1 c2 c3 where c: "cells h out = [c0, c1, c2, c3]"
    using assms len4D by blast
  show ?thesis
    using c
    by (cases "out = a"; cases "out = b")
       (simp_all add: quat_lerp_def quatLerp_def result_def put_def get_def
          heap_of_def Let_def cong: heap_cong)
qed


text \<open>
  Between unit quaternions with dot product above 0.9995 the linear interpolation
  has squared length \<open>1 - 2 t (1 - t) (1 - dot) > 1 / 2\<close> for every real \<open>t\<close>, so the
  guard \<^verbatim>\<open>len > EPSILON\<close> always holds and the result is renormalized.
\<close>

lemma lerp_length_unit:
  fixes a0 :: real
  assumes ua: "a0 * a0 + a1 * a1 + a2 * a2 + a3 * a3 = 1"
    and uc: "c0 * c0 + c1 * c1 + c2 * c2 + c3 * c3 = 1"
    and d: "9995 / 10000 < a0 * c0 + a1 * c1 + a2 * c2 + a3 * c3"
  shows "EPSILON < sqrt ((a0 + t * (c0 - a0)) * (a0 + t * (c0 - a0)) +
                         (a1 + t * (c1 - a1)) * (a1 + t * (c1 - a1)) +
                         (a2 + t * (c2 - a2)) * (a2 + t * (c2 - a2)) +
                         (a3 + t * (c3 - a3)) * (a3 + t * (c3 - a3)))"
proof -
  define d where "d = a0 * c0 + a1 * c1 + a2 * c2 + a3 * c3"
  define S where "S = (a0 + t * (c0 - a0)) * (a0 + t * (c0 - a0)) +
                      (a1 + t * (c1 - a1)) * (a1 + t * (c1 - a1)) +
                      (a2 + t * (c2 - a2)) * (a2 + t * (c2 - a2)) +
                      (a3 + t * (c3 - a3)) * (a3 + t * (c3 - a3))"
  have S: "S = 1 - 2 * (t * (1 - t) * (1 - d))"
    unfolding S_def d_def using ua uc by algebra
  have "(a0 - c0) * (a0 - c0) + (a1 - c1) * (a1 - c1) + (a2 - c2) * (a2 - c2) +
        (a3 - c3) * (a3 - c3) = 2 - 2 * d"
    unfolding d_def using ua uc by algebra
  moreover have "0 \<le> (a0 - c0) * (a0 - c0) + (a1 - c1) * (a1 - c1) + (a2 - c2) * (a2 - c2) +
        (a3 - c3) * (a3 - c3)"
    by (intro add_nonneg_nonneg) simp_all
  ultimately have d1: "0 \<le> 1 - d" by linarith
  have "1 / 4 - t * (1 - t) = (t - 1 / 2) * (t - 1 / 2)" by algebra
  moreover have "0 \<le> (t - 1 / 2) * (t - 1 / 2)" by simp
  ultimately have "t * (1 - t) \<le> 1 / 4" by linarith
  then have "t * (1 - t) * (1 - d) \<le> 1 / 4 * (1 - d)"
    using d1 by (rule mult_right_mono)
  moreover define P where "P = t * (1 - t) * (1 - d)"
  moreover have "1 - d < 5 / 10000" using assms(3) by (simp add: d_def)
  moreover have "S = 1 - 2 * P" by (simp add: S P_def)
  ultimately have "1 / 2 < S" by simp
  then have "EPSILON\<^sup>2 < S" by (simp add: EPSILON_def power2_eq_square)
  then have "EPSILON < sqrt S" by (rule real_less_rsqrt)
  then show ?thesis by (simp add: S_def)
qed

text \<open>
  In the spherical branch \<open>0 \<le> dot \<le> 0.9995\<close>, so \<open>sin \<theta> \<noteq> 0\<close> and the weight
  \<open>cos(\<theta> t) - dot * sin(\<theta> t) / sin \<theta>\<close> of the source is \<open>sin((1 - t) \<theta>) / sin \<theta>\<close>.
\<close>

lemma slerp_angle:
  fixes d :: real
  assumes "0 \<le> d" "\<not> 9995 / 10000 < d"
  shows "sin (arccos d) \<noteq> 0"
    and "sin ((1 - t) * arccos d) = sin (arccos d) * cos (arccos d * t) - d * sin (arccos d * t)"
proof -
  have r: "- 1 < d" "d < 1" "- 1 \<le> d" "d \<le> 1" using assms by simp_all
  show "sin (arccos d) \<noteq> 0" using r(1,2) by (rule sin_arccos_nonzero)
  have c: "cos (arccos d) = d" using r(3,4) by (rule cos_arccos)
  have "sin ((1 - t) * arccos d) = sin (arccos d - arccos d * t)"
    by (simp add: algebra_simps)
  also have "\<dots> = sin (arccos d) * cos (arccos d * t) - d * sin (arccos d * t)"
    by (simp add: sin_diff c)
  finally show "sin ((1 - t) * arccos d) = sin (arccos d) * cos (arccos d * t) - d * sin (arccos d * t)" .
qed

lemma quat_slerp_spec:
  assumes "unit_quat a" "unit_quat b"
  shows "quat_slerp a b t = slerp_spec a b t"
proof -
  obtain a0 a1 a2 a3 where a: "a = [a0, a1, a2, a3]"
    using assms(1) len4D unfolding unit_quat_def by blast
  obtain b0 b1 b2 b3 where b: "b = [b0, b1, b2, b3]"
    using assms(2) len4D unfolding unit_quat_def by blast
  have ua: "a0 * a0 + a1 * a1 + a2 * a2 + a3 * a3 = 1"
    using assms(1) by (simp add: unit_quat_def quat_dot_def a)
  have ub: "b0 * b0 + b1 * b1 + b2 * b2 + b3 * b3 = 1"
    using assms(2) by (simp add: unit_quat_def quat_dot_def b)
  have un: "(- b0) * (- b0) + (- b1) * (- b1) + (- b2) * (- b2) + (- b3) * (- b3) = 1"
    using ub by simp
  define d0 where "d0 = a0 * b0 + a1 * b1 + a2 * b2 + a3 * b3"
  have dn: "a0 * (- b0) + a1 * (- b1) + a2 * (- b2) + a3 * (- b3) = - d0"
    by (simp add: d0_def)
  have dp: "a0 * b0 + a1 * b1 + a2 * b2 + a3 * b3 = d0"
    by (simp add: d0_def)
  consider (neg_lerp) "d0 < 0" "9995 / 10000 < - d0"
    | (neg_sph) "d0 < 0" "\<not> 9995 / 10000 < - d0"
    | (pos_lerp) "\<not> d0 < 0" "9995 / 10000 < d0"
    | (pos_sph) "\<not> d0 < 0" "\<not> 9995 / 10000 < d0"
    by blast
  then show ?thesis
  proof cases
    case neg_lerp
    have len: "EPSILON < sqrt ((a0 + t * (- b0 - a0)) * (a0 + t * (- b0 - a0)) +
                         (a1 + t * (- b1 - a1)) * (a1 + t * (- b1 - a1)) +
                         (a2 + t * (- b2 - a2)) * (a2 + t * (- b2 - a2)) +
                         (a3 + t * (- b3 - a3)) * (a3 + t * (- b3 - a3)))"
      using neg_lerp(2) by (intro lerp_length_unit [OF ua un]) (simp add: d0_def)
    have ab: "\<bar>d0\<bar> = - d0" using neg_lerp(1) by simp
    show ?thesis
      using neg_lerp len
      by (simp add: a b quat_slerp_eq slerp_spec_def quat_dot_def dp ab Let_def)
  next
    case neg_sph
    have ab: "\<bar>d0\<bar> = - d0" using neg_sph(1) by simp
    have w: "sin (arccos (- d0)) \<noteq> 0"
      "sin ((1 - t) * arccos (- d0)) =
         sin (arccos (- d0)) * cos (arccos (- d0) * t) - (- d0) * sin (arccos (- d0) * t)"
      using neg_sph by (simp_all add: slerp_angle)
    show ?thesis
      using neg_sph w
      by (simp add: a b quat_slerp_eq slerp_spec_def quat_dot_def dp ab Let_def)
         (simp add: field_simps)
  next
    case pos_lerp
    have len: "EPSILON < sqrt ((a0 + t * (b0 - a0)) * (a0 + t * (b0 - a0)) +
                         (a1 + t * (b1 - a1)) * (a1 + t * (b1 - a1)) +
                         (a2 + t * (b2 - a2)) * (a2 + t * (b2 - a2)) +
                         (a3 + t * (b3 - a3)) * (a3 + t * (b3 - a3)))"
      using pos_lerp(2) by (intro lerp_length_unit [OF ua ub]) (simp add: d0_def)
    have ab: "\<bar>d0\<bar> = d0" using pos_lerp(1) by simp
    show ?thesis
      using pos_lerp len
      by (simp add: a b quat_slerp_eq slerp_spec_def quat_dot_def dp ab Let_def)
  next
    case pos_sph
    have ab: "\<bar>d0\<bar> = d0" using pos_sph(1) by simp
    have w: "sin (arccos d0) \<noteq> 0"
      "sin ((1 - t) * arccos d0) =
         sin (arccos d0) * cos (arccos d0 * t) - d0 * sin (arccos d0 * t)"
      using pos_sph by (simp_all add: slerp_angle)
    show ?thesis
      using pos_sph w
      by (simp add: a b quat_slerp_eq slerp_spec_def quat_dot_def dp ab Let_def)
         (simp add: field_simps)
  qed
qed

text \<open>
  What holds of the rules of the shorter arc. For unit quaternions \<open>a\<close> and \<open>b\<close> and
  every \<open>t\<close>, \<^verbatim>\<open>quatSlerp\<close> with an output array that is not \<^verbatim>\<open>a\<close> returns \<^verbatim>\<open>out\<close>
  holding \<open>slerp_spec a b t\<close>: \<open>b\<close> negated when the dot product is negative, the
  renormalized linear interpolation when \<open>|dot| > 0.9995\<close>, the spherical formula
  otherwise. \<^verbatim>\<open>basisSlerp\<close>, which interpolates in arrays of its own, returns
  \<^verbatim>\<open>basisFromQuat\<close> of the same interpolation, applied to the quaternions that
  \<^verbatim>\<open>basisToQuat\<close> gives for the two bases.
\<close>

theorem slerp_shorter_arc:
  assumes "qo \<noteq> qa" and "length (cells h qo) = 4"
    and "unit_quat (cells h qa)" and "unit_quat (cells h qb)"
    and "out < next_ref h" and "a < next_ref h" and "b < next_ref h"
  shows "fst (quatSlerp qo qa qb t h) = qo \<and>
         result (quatSlerp qo qa qb t h) = slerp_spec (cells h qa) (cells h qb) t \<and>
         result (basisSlerp out a b t h) =
           basis_of_quat (quat_slerp (quat_of_basis (cells h a)) (quat_of_basis (cells h b)) t) \<and>
         (unit_quat (quat_of_basis (cells h a)) \<and> unit_quat (quat_of_basis (cells h b)) \<longrightarrow>
            result (basisSlerp out a b t h) =
              basis_of_quat (slerp_spec (quat_of_basis (cells h a)) (quat_of_basis (cells h b)) t))"
  using assms
  by (simp add: quatSlerp_fresh basisSlerp_eq result_def quat_slerp_spec)

theorem slerp_shorter_arc_witness:
  "((0::nat) \<noteq> 1 \<and> length (cells slerp_example 0) = 4 \<and>
    unit_quat (cells slerp_example 1) \<and> unit_quat (cells slerp_example 2) \<and>
    3 < next_ref slerp_example \<and> 4 < next_ref slerp_example \<and> 5 < next_ref slerp_example \<and>
    unit_quat (quat_of_basis (cells slerp_example 4)) \<and>
    unit_quat (quat_of_basis (cells slerp_example 5))) \<and>
   result (quatSlerp 0 1 2 (1 / 2) slerp_example) =
     slerp_spec (cells slerp_example 1) (cells slerp_example 2) (1 / 2) \<and>
   result (basisSlerp 3 4 5 (1 / 2) slerp_example) =
     basis_of_quat (slerp_spec (quat_of_basis (cells slerp_example 4))
                               (quat_of_basis (cells slerp_example 5)) (1 / 2))"
proof -
  have h: "(0::nat) \<noteq> 1" "length (cells slerp_example 0) = 4"
    "unit_quat (cells slerp_example 1)" "unit_quat (cells slerp_example 2)"
    "3 < next_ref slerp_example" "4 < next_ref slerp_example" "5 < next_ref slerp_example"
    by (simp_all add: slerp_example_def heap_of_def unit_quat_def quat_dot_def)
  have u: "unit_quat (quat_of_basis (cells slerp_example 4))"
    "unit_quat (quat_of_basis (cells slerp_example 5))"
    by (simp_all add: slerp_example_def heap_of_def unit_quat_def quat_dot_def
        quat_of_basis_def basisToQuat_def result_def alloc_def get_def Let_def cong: heap_cong)
  show ?thesis
    using h u slerp_shorter_arc [OF h, of "1 / 2"] by blast
qed

text \<open>
  C1 does not hold of the code for every pair of unit quaternions and every call:
  \<^verbatim>\<open>quatSlerp\<close> stores \<open>b\<close> (or \<open>-b\<close>) in \<^verbatim>\<open>out\<close> before it reads \<^verbatim>\<open>a\<close>, so in the
  call \<^verbatim>\<open>quatSlerp(a, a, b, t)\<close> it interpolates from \<open>b\<close> to \<open>b\<close>. For the unit
  quaternions \<open>a = (1, 0, 0, 0)\<close> and \<open>b = (0, 0, 1, 0)\<close>, of dot product 0, and
  \<open>t = 0\<close> the rules of the shorter arc give \<open>a\<close>, which a separate output receives,
  and the call with \<^verbatim>\<open>out\<close> aliased to \<^verbatim>\<open>a\<close> returns \<open>b\<close>.
\<close>

theorem quatSlerp_in_place_breaks_rules:
  "unit_quat (cells slerp_in_place 1) \<and> unit_quat (cells slerp_in_place 2) \<and>
   slerp_spec (cells slerp_in_place 1) (cells slerp_in_place 2) 0 = [1, 0, 0, 0] \<and>
   result (quatSlerp 0 1 2 0 slerp_in_place) = [1, 0, 0, 0] \<and>
   result (quatSlerp 1 1 2 0 slerp_in_place) = [0, 0, 1, 0]"
  by (simp add: slerp_in_place_def heap_of_def unit_quat_def quat_dot_def slerp_spec_def
      quatSlerp_def quatDot_def result_def get_def put_def Let_def cong: heap_cong)

section \<open>Interpolation at the end points\<close>

lemma vec3Lerp_eq:
  assumes "out < next_ref h" "a < next_ref h" "b < next_ref h"
    and "length (cells h out) = 3"
  shows "fst (vec3Lerp out a b t h) = out"
    and "result (vec3Lerp out a b t h) = vec3_lerp (cells h a) (cells h b) t"
proof -
  obtain c0 c1 c2 where c: "cells h out = [c0, c1, c2]"
    using assms(4) len3D by blast
  have ne: "out \<noteq> next_ref h" "a \<noteq> next_ref h" "b \<noteq> next_ref h"
    using assms(1-3) by simp_all
  show "fst (vec3Lerp out a b t h) = out"
    by (simp add: vec3Lerp_def split_def Let_def)
  show "result (vec3Lerp out a b t h) = vec3_lerp (cells h a) (cells h b) t"
    using c ne
    by (cases "out = a"; cases "out = b")
       (simp_all add: vec3_lerp_def vec3Lerp_def vec3Sub_def vec3Mul_def vec3Add_def
          result_def alloc_def put_def get_def heap_of_def Let_def cong: heap_cong)
qed

lemma vec3_lerp_boundary:
  assumes "length a = 3" "length b = 3"
  shows "vec3_lerp a b 0 = a" and "vec3_lerp a b 1 = b"
proof -
  obtain a0 a1 a2 where a: "a = [a0, a1, a2]" using assms(1) len3D by blast
  obtain b0 b1 b2 where b: "b = [b0, b1, b2]" using assms(2) len3D by blast
  show "vec3_lerp a b 0 = a" and "vec3_lerp a b 1 = b"
    by (simp_all add: a b vec3_lerp_def vec3Lerp_def vec3Sub_def vec3Mul_def vec3Add_def
          result_def alloc_def put_def get_def heap_of_def Let_def cong: heap_cong)
qed

lemma quat_lerp_boundary:
  assumes "unit_quat a" "unit_quat b"
  shows "quat_lerp a b 0 = a" and "quat_lerp a b 1 = b"
proof -
  obtain a0 a1 a2 a3 where a: "a = [a0, a1, a2, a3]"
    using assms(1) len4D unfolding unit_quat_def by blast
  obtain b0 b1 b2 b3 where b: "b = [b0, b1, b2, b3]"
    using assms(2) len4D unfolding unit_quat_def by blast
  have ua: "a0 * a0 + a1 * a1 + a2 * a2 + a3 * a3 = 1"
    using assms(1) by (simp add: unit_quat_def quat_dot_def a)
  have ub: "b0 * b0 + b1 * b1 + b2 * b2 + b3 * b3 = 1"
    using assms(2) by (simp add: unit_quat_def quat_dot_def b)
  show "quat_lerp a b 0 = a"
    by (simp add: a b quat_lerp_eq ua EPSILON_def)
  show "quat_lerp a b 1 = b"
    by (simp add: a b quat_lerp_eq ub EPSILON_def)
qed

lemma slerp_spec_boundary:
  assumes "unit_quat a" "unit_quat b"
  shows "slerp_spec a b 0 = a"
    and "slerp_spec a b 1 = (if quat_dot a b < 0 then map uminus b else b)"
proof -
  obtain a0 a1 a2 a3 where a: "a = [a0, a1, a2, a3]"
    using assms(1) len4D unfolding unit_quat_def by blast
  obtain b0 b1 b2 b3 where b: "b = [b0, b1, b2, b3]"
    using assms(2) len4D unfolding unit_quat_def by blast
  have ua: "a0 * a0 + a1 * a1 + a2 * a2 + a3 * a3 = 1"
    using assms(1) by (simp add: unit_quat_def quat_dot_def a)
  have ub: "b0 * b0 + b1 * b1 + b2 * b2 + b3 * b3 = 1"
    using assms(2) by (simp add: unit_quat_def quat_dot_def b)
  define d0 where "d0 = a0 * b0 + a1 * b1 + a2 * b2 + a3 * b3"
  have dp: "a0 * b0 + a1 * b1 + a2 * b2 + a3 * b3 = d0"
    by (simp add: d0_def)
  consider (neg_lerp) "d0 < 0" "9995 / 10000 < - d0"
    | (neg_sph) "d0 < 0" "\<not> 9995 / 10000 < - d0"
    | (pos_lerp) "\<not> d0 < 0" "9995 / 10000 < d0"
    | (pos_sph) "\<not> d0 < 0" "\<not> 9995 / 10000 < d0"
    by blast
  then have "slerp_spec a b 0 = a \<and>
      slerp_spec a b 1 = (if quat_dot a b < 0 then map uminus b else b)"
  proof cases
    case neg_lerp
    have ab: "\<bar>d0\<bar> = - d0" using neg_lerp(1) by simp
    show ?thesis
      using neg_lerp
      by (simp add: a b slerp_spec_def quat_dot_def dp ab Let_def ua ub)
  next
    case neg_sph
    have ab: "\<bar>d0\<bar> = - d0" using neg_sph(1) by simp
    have nz: "sin (arccos (- d0)) \<noteq> 0"
      using neg_sph by (intro slerp_angle(1)) simp_all
    show ?thesis
      using neg_sph nz
      by (simp add: a b slerp_spec_def quat_dot_def dp ab Let_def)
  next
    case pos_lerp
    have ab: "\<bar>d0\<bar> = d0" using pos_lerp(1) by simp
    show ?thesis
      using pos_lerp
      by (simp add: a b slerp_spec_def quat_dot_def dp ab Let_def ua ub)
  next
    case pos_sph
    have ab: "\<bar>d0\<bar> = d0" using pos_sph(1) by simp
    have nz: "sin (arccos d0) \<noteq> 0"
      using pos_sph by (intro slerp_angle(1)) simp_all
    show ?thesis
      using pos_sph nz
      by (simp add: a b slerp_spec_def quat_dot_def dp ab Let_def)
  qed
  then show "slerp_spec a b 0 = a"
    and "slerp_spec a b 1 = (if quat_dot a b < 0 then map uminus b else b)"
    by simp_all
qed


text \<open>
  C5, as stated, fails in three ways. \<^verbatim>\<open>quatLerp\<close> renormalizes, so at \<open>t = 0\<close> the
  quaternion \<open>(0, 0, 0, 2)\<close> comes back as \<open>(0, 0, 0, 1)\<close>. \<^verbatim>\<open>quatSlerp\<close> negates
  \<open>b\<close> when the dot product is negative, so from \<open>(0, 0, 0, 1)\<close> to \<open>(0, 0, 0, -1)\<close> it
  returns \<open>(0, 0, 0, 1)\<close> at \<open>t = 1\<close>. \<^verbatim>\<open>basisLerp\<close> and \<^verbatim>\<open>basisSlerp\<close> at \<open>t = 0\<close>
  return the transpose of the rotation \<open>a\<close> by a third of a turn, not \<open>a\<close>:
  \<^verbatim>\<open>basisFromQuat\<close> builds the transpose of the matrix \<^verbatim>\<open>basisToQuat\<close> reads.
\<close>

theorem interpolation_boundary_counterexample:
  "cells boundary_example 1 = [0, 0, 0, 2] \<and>
   result (quatLerp 0 1 2 0 boundary_example) = [0, 0, 0, 1] \<and>
   cells boundary_example 3 = [0, 0, 0, - 1] \<and>
   result (quatSlerp 0 2 3 1 boundary_example) = [0, 0, 0, 1] \<and>
   cells boundary_example 5 = [0, 1, 0, 0, 0, 1, 1, 0, 0] \<and>
   result (basisLerp 4 5 6 0 boundary_example) = [0, 0, 1, 1, 0, 0, 0, 1, 0] \<and>
   result (basisSlerp 4 5 6 0 boundary_example) = [0, 0, 1, 1, 0, 0, 0, 1, 0]"
  by (simp add: boundary_example_def heap_of_def quatLerp_def quatSlerp_def quatDot_def
      basisLerp_def basisSlerp_def basisToQuat_def basisFromQuat_def EPSILON_def
      result_def alloc_def get_def put_def Let_def cong: heap_cong)

text \<open>
  C5, amended. \<^verbatim>\<open>vec3Lerp\<close> returns \<open>a\<close> at \<open>t = 0\<close> and \<open>b\<close> at \<open>t = 1\<close> for all
  vectors. For unit quaternions, \<^verbatim>\<open>quatLerp\<close> returns \<open>a\<close> at 0 and \<open>b\<close> at 1, and
  \<^verbatim>\<open>quatSlerp\<close> (with an output that is not \<^verbatim>\<open>a\<close>) returns \<open>a\<close> at 0 and, at 1, \<open>b\<close>
  when the dot product is not negative and \<open>-b\<close>, the same rotation, when it is.
\<close>

theorem interpolation_boundary:
  assumes "vo < next_ref h" and "va < next_ref h" and "vb < next_ref h"
    and "length (cells h vo) = 3" and "length (cells h va) = 3" and "length (cells h vb) = 3"
    and "length (cells h qo) = 4" and "unit_quat (cells h qa)" and "unit_quat (cells h qb)"
  shows "result (vec3Lerp vo va vb 0 h) = cells h va \<and>
         result (vec3Lerp vo va vb 1 h) = cells h vb \<and>
         result (quatLerp qo qa qb 0 h) = cells h qa \<and>
         result (quatLerp qo qa qb 1 h) = cells h qb \<and>
         (qo \<noteq> qa \<longrightarrow>
            result (quatSlerp qo qa qb 0 h) = cells h qa \<and>
            result (quatSlerp qo qa qb 1 h) =
              (if quat_dot (cells h qa) (cells h qb) < 0
               then map uminus (cells h qb) else cells h qb))"
proof -
  have v: "result (vec3Lerp vo va vb 0 h) = cells h va" "result (vec3Lerp vo va vb 1 h) = cells h vb"
    by (simp_all add: vec3Lerp_eq(2) [OF assms(1-4)] vec3_lerp_boundary [OF assms(5,6)])
  have l: "result (quatLerp qo qa qb 0 h) = cells h qa" "result (quatLerp qo qa qb 1 h) = cells h qb"
    by (simp_all add: quatLerp_eq [OF assms(7)] result_def quat_lerp_boundary [OF assms(8,9)])
  have s: "result (quatSlerp qo qa qb 0 h) = cells h qa"
    "result (quatSlerp qo qa qb 1 h) =
       (if quat_dot (cells h qa) (cells h qb) < 0 then map uminus (cells h qb) else cells h qb)"
    if "qo \<noteq> qa"
    by (simp_all add: quatSlerp_fresh [OF that assms(7)] result_def
        quat_slerp_spec [OF assms(8,9)] slerp_spec_boundary [OF assms(8,9)])
  show ?thesis using v l s by blast
qed

theorem interpolation_boundary_witness:
  "(7 < next_ref boundary_example \<and> 8 < next_ref boundary_example \<and> 9 < next_ref boundary_example \<and>
    length (cells boundary_example 7) = 3 \<and> length (cells boundary_example 8) = 3 \<and>
    length (cells boundary_example 9) = 3 \<and> length (cells boundary_example 0) = 4 \<and>
    unit_quat (cells boundary_example 2) \<and> unit_quat (cells boundary_example 3) \<and> (0::nat) \<noteq> 2) \<and>
   result (vec3Lerp 7 8 9 0 boundary_example) = [1, 2, 3] \<and>
   result (vec3Lerp 7 8 9 1 boundary_example) = [4, 5, 6] \<and>
   result (quatLerp 0 2 3 0 boundary_example) = [0, 0, 0, 1] \<and>
   result (quatLerp 0 2 3 1 boundary_example) = [0, 0, 0, - 1] \<and>
   result (quatSlerp 0 2 3 0 boundary_example) = [0, 0, 0, 1] \<and>
   result (quatSlerp 0 2 3 1 boundary_example) = [0, 0, 0, 1]"
proof -
  have h: "7 < next_ref boundary_example" "8 < next_ref boundary_example"
    "9 < next_ref boundary_example"
    "length (cells boundary_example 7) = 3" "length (cells boundary_example 8) = 3"
    "length (cells boundary_example 9) = 3" "length (cells boundary_example 0) = 4"
    "unit_quat (cells boundary_example 2)" "unit_quat (cells boundary_example 3)"
    by (simp_all add: boundary_example_def heap_of_def unit_quat_def quat_dot_def)
  have ne: "(0::nat) \<noteq> 2" by simp
  have c: "cells boundary_example 8 = [1, 2, 3]" "cells boundary_example 9 = [4, 5, 6]"
    "cells boundary_example 2 = [0, 0, 0, 1]" "cells boundary_example 3 = [0, 0, 0, - 1]"
    by (simp_all add: boundary_example_def heap_of_def)
  have d: "(if quat_dot [0, 0, 0, 1] [0, 0, 0, - 1] < 0 then map uminus [0, 0, 0, - 1 :: real]
           else [0, 0, 0, - 1]) = [0, 0, 0, 1]"
    by (simp add: quat_dot_def)
  show ?thesis
    using h ne interpolation_boundary [OF h, unfolded c d] by blast
qed

end
